theory Spec2Isabelle
  imports Main "HOL-Library.Word" "HOL-Library.Monad_Syntax"
begin

unbundle bit_operations_syntax

chapter \<open>A model of the storage manager\<close>

text \<open>
  The development follows the C++ sources component by component: the LRU replacer, the
  extendible hash table, the buffer pool manager's \<open>DeletePage\<close>, the lock manager and the
  B+ tree index with its leaf and internal pages.  Objects that the C++ code mutates in
  place are passed in and returned.  Member names lose their trailing underscore
  (\<open>root_page_id_\<close> is written \<open>root_page_id\<close>), and a method \<open>C::m\<close> whose name is
  used by several classes is written \<open>C_m\<close>.
\<close>

section \<open>LRU replacer (lru_replacer.h, lru_replacer.cpp)\<close>

text \<open>
  \<open>used\<close> is the \<open>std::list\<close>, most recently inserted value first.  \<open>mp\<close> is the
  \<open>std::unordered_map\<close> from a value to the list node that holds it; the model keeps its
  key set, and erasing the node \<open>mp[value]\<close> is erasing the occurrence of \<open>value\<close> from
  \<open>used\<close>.  Every state built by the operations keeps \<open>used\<close> free of duplicates and
  \<open>mp\<close> equal to the set of its elements (\<open>LRU_reachable_inv\<close> below), so that the node
  is the only occurrence.
\<close>

record 'a LRUReplacer =
  mp :: "'a set"
  used :: "'a list"

definition LRU_empty :: "'a LRUReplacer" where
  "LRU_empty = \<lparr>mp = {}, used = []\<rparr>"

definition LRU_Insert :: "'a \<Rightarrow> 'a LRUReplacer \<Rightarrow> 'a LRUReplacer" where
  "LRU_Insert v s =
     (let u1 = (if v \<in> mp s then remove1 v (used s) else used s)
      in \<lparr>mp = insert v (mp s), used = v # u1\<rparr>)"

text \<open>
  \<open>Victim\<close> returns false on an empty map.  \<open>used.back()\<close> on an empty list has no
  defined behaviour in C++; the model reports that case as \<open>BackOfEmptyList\<close>.
\<close>

datatype 'a victim_result = NoVictim | BackOfEmptyList | Evicted 'a "'a LRUReplacer"

definition LRU_Victim :: "'a LRUReplacer \<Rightarrow> 'a victim_result" where
  "LRU_Victim s =
     (if mp s = {} then NoVictim
      else if used s = [] then BackOfEmptyList
      else Evicted (last (used s))
             \<lparr>mp = mp s - {last (used s)}, used = butlast (used s)\<rparr>)"

definition LRU_Erase :: "'a \<Rightarrow> 'a LRUReplacer \<Rightarrow> bool \<times> 'a LRUReplacer" where
  "LRU_Erase v s =
     (if v \<notin> mp s then (False, s)
      else (True, \<lparr>mp = mp s - {v}, used = remove1 v (used s)\<rparr>))"

definition LRU_Size :: "'a LRUReplacer \<Rightarrow> nat" where
  "LRU_Size s = card (mp s)"

text \<open>The states a replacer can be in: built from the empty one by its three operations.\<close>

inductive LRU_reachable :: "'a LRUReplacer \<Rightarrow> bool" where
  reach_empty: "LRU_reachable LRU_empty"
| reach_Insert: "LRU_reachable s \<Longrightarrow> LRU_reachable (LRU_Insert v s)"
| reach_Victim: "LRU_reachable s \<Longrightarrow> LRU_Victim s = Evicted v s' \<Longrightarrow> LRU_reachable s'"
| reach_Erase: "LRU_reachable s \<Longrightarrow> LRU_reachable (snd (LRU_Erase v s))"

text \<open>Calling \<open>Victim\<close> until it returns false: the values returned, in order, and the
  state that is left.\<close>

function LRU_drain :: "'a LRUReplacer \<Rightarrow> 'a list \<times> 'a LRUReplacer" where
  "LRU_drain s =
     (case LRU_Victim s of
        Evicted v s' \<Rightarrow> (let (vs, t) = LRU_drain s' in (v # vs, t))
      | _ \<Rightarrow> ([], s))"
  by pat_completeness auto
termination
  by (relation "measure (\<lambda>s. length (used s))")
     (auto simp: LRU_Victim_def split: if_splits)

declare LRU_drain.simps [simp del]

definition LRU_inv :: "'a LRUReplacer \<Rightarrow> bool" where
  "LRU_inv s \<longleftrightarrow> distinct (used s) \<and> set (used s) = mp s"

section \<open>Extendible hash table (extendible_hash.h, extendible_hash.cpp)\<close>

text \<open>
  The directory \<open>table\<close> is a vector of shared pointers to buckets, and several directory
  entries may point to one bucket.  The model keeps the buckets in \<open>heap\<close>, a pointer is an
  index into \<open>heap\<close>, and \<open>std::make_shared\<close> appends a bucket.  A slot of a bucket is
  \<open>None\<close> when its flag is \<open>NONE\<close> (the key and value of such a slot are never read)
  and \<open>Some (key, value)\<close> when its flag is \<open>HASVAL\<close>.  The hash function \<open>std::hash\<close>
  is a parameter \<open>h\<close> of every operation.  Depths and sizes are natural numbers, so the
  model is the code as long as \<open>1 << globalDepth\<close> does not overflow an \<open>int\<close>.
\<close>

record ('k, 'v) Bucket =
  entries :: "('k \<times> 'v) option list"
  localDepth :: nat
  bucketMaxSize :: nat
  bucket_size :: nat

record ('k, 'v) ExtendibleHash =
  maxBucketSize :: nat
  globalDepth :: nat
  numBuckets :: nat
  table :: "nat list"
  heap :: "('k, 'v) Bucket list"

definition new_Bucket :: "nat \<Rightarrow> nat \<Rightarrow> nat \<Rightarrow> ('k, 'v) Bucket" where
  "new_Bucket ld mx sz =
     \<lparr>entries = replicate mx None, localDepth = ld, bucketMaxSize = mx, bucket_size = sz\<rparr>"

definition ExtendibleHash_init :: "nat \<Rightarrow> ('k, 'v) ExtendibleHash" where
  "ExtendibleHash_init sz =
     \<lparr>maxBucketSize = sz, globalDepth = 0, numBuckets = 1, table = [0],
      heap = [new_Bucket 0 sz 0]\<rparr>"

definition HashKey :: "('k \<Rightarrow> nat) \<Rightarrow> ('k, 'v) ExtendibleHash \<Rightarrow> 'k \<Rightarrow> nat" where
  "HashKey h s key = h key AND (push_bit (globalDepth s) 1 - 1)"

text \<open>\<open>table[i]\<close> dereferenced, and a write through that pointer.\<close>

definition bucket_at :: "('k, 'v) ExtendibleHash \<Rightarrow> nat \<Rightarrow> ('k, 'v) Bucket" where
  "bucket_at s i = heap s ! (table s ! i)"

definition set_bucket_at ::
  "('k, 'v) ExtendibleHash \<Rightarrow> nat \<Rightarrow> ('k, 'v) Bucket \<Rightarrow> ('k, 'v) ExtendibleHash" where
  "set_bucket_at s i b = s\<lparr>heap := (heap s)[table s ! i := b]\<rparr>"

fun find_entry :: "'k \<Rightarrow> ('k \<times> 'v) option list \<Rightarrow> 'v option" where
  "find_entry key [] = None"
| "find_entry key (e # es) =
     (case e of
        Some (k, v) \<Rightarrow> if k = key then Some v else find_entry key es
      | None \<Rightarrow> find_entry key es)"

text \<open>\<open>Find\<close> returns \<open>Some value\<close> where the C++ returns true and stores the value, and
  \<open>None\<close> where it returns false and leaves its out-parameter alone.\<close>

definition EH_Find :: "('k \<Rightarrow> nat) \<Rightarrow> 'k \<Rightarrow> ('k, 'v) ExtendibleHash \<Rightarrow> 'v option" where
  "EH_Find h key s = find_entry key (entries (bucket_at s (HashKey h s key)))"

fun remove_entry :: "'k \<Rightarrow> ('k \<times> 'v) option list \<Rightarrow> (('k \<times> 'v) option list) option" where
  "remove_entry key [] = None"
| "remove_entry key (e # es) =
     (case e of
        Some (k, v) \<Rightarrow>
          if k = key then Some (None # es) else map_option ((#) e) (remove_entry key es)
      | None \<Rightarrow> map_option ((#) e) (remove_entry key es))"

definition EH_Remove ::
  "('k \<Rightarrow> nat) \<Rightarrow> 'k \<Rightarrow> ('k, 'v) ExtendibleHash \<Rightarrow> bool \<times> ('k, 'v) ExtendibleHash" where
  "EH_Remove h key s =
     (let index = HashKey h s key; b = bucket_at s index
      in case remove_entry key (entries b) of
           Some es \<Rightarrow> (True, set_bucket_at s index (b\<lparr>entries := es, bucket_size := bucket_size b - 1\<rparr>))
         | None \<Rightarrow> (False, s))"

fun update_entry ::
  "'k \<Rightarrow> 'v \<Rightarrow> ('k \<times> 'v) option list \<Rightarrow> (('k \<times> 'v) option list) option" where
  "update_entry key val [] = None"
| "update_entry key val (e # es) =
     (case e of
        Some (k, v) \<Rightarrow>
          if k = key then Some (Some (k, val) # es)
          else map_option ((#) e) (update_entry key val es)
      | None \<Rightarrow> map_option ((#) e) (update_entry key val es))"

fun fill_entry ::
  "'k \<Rightarrow> 'v \<Rightarrow> ('k \<times> 'v) option list \<Rightarrow> (('k \<times> 'v) option list) option" where
  "fill_entry key val [] = None"
| "fill_entry key val (e # es) =
     (case e of
        None \<Rightarrow> Some (Some (key, val) # es)
      | Some kv \<Rightarrow> map_option ((#) e) (fill_entry key val es))"

text \<open>One round of the redistribution loop of \<open>Insert\<close>, for the slot \<open>j\<close> of the old
  bucket \<open>table[indexSt0]\<close>.\<close>

definition redistribute_entry ::
  "('k \<Rightarrow> nat) \<Rightarrow> nat \<Rightarrow> nat \<Rightarrow> nat \<Rightarrow> ('k, 'v) ExtendibleHash \<Rightarrow> nat
     \<Rightarrow> ('k, 'v) ExtendibleHash" where
  "redistribute_entry h indexSt0 indexSt1 ld s j =
     (let b0 = bucket_at s indexSt0
      in case entries b0 ! j of
           None \<Rightarrow> s
         | Some (k, v) \<Rightarrow>
             (let curIndex = HashKey h s k
              in if curIndex AND push_bit (ld - 1) 1 = indexSt0 AND push_bit (ld - 1) 1 then s
                 else
                   (let b1 = bucket_at s indexSt1;
                        s1 = set_bucket_at s indexSt1
                               (b1\<lparr>entries := (entries b1)[bucket_size b1 := Some (k, v)],
                                   bucket_size := bucket_size b1 + 1\<rparr>);
                        b0' = bucket_at s1 indexSt0
                    in set_bucket_at s1 indexSt0
                         (b0'\<lparr>bucket_size := bucket_size b0' - 1,
                              entries := (entries b0')[j := None]\<rparr>))))"

text \<open>The body of the \<open>while\<close> loop of \<open>Insert\<close>: the directory doubles when the full
  bucket's local depth is the global depth, a new bucket is stored at \<open>indexSt1\<close> alone,
  both local depths go up by one and the old bucket's entries are redistributed.\<close>

definition split_bucket ::
  "('k \<Rightarrow> nat) \<Rightarrow> nat \<Rightarrow> ('k, 'v) ExtendibleHash \<Rightarrow> ('k, 'v) ExtendibleHash" where
  "split_bucket h index s =
     (let insertBucket = bucket_at s index;
          s1 = (if localDepth insertBucket = globalDepth s
                then s\<lparr>table := table s @ table s, globalDepth := globalDepth s + 1\<rparr>
                else s);
          indexSt0 = index;
          indexSt1 = index XOR push_bit (localDepth insertBucket) 1;
          s2 = s1\<lparr>table := (table s1)[indexSt1 := length (heap s1)],
                   heap := heap s1 @ [new_Bucket 0 (maxBucketSize s1) 0]\<rparr>;
          b0 = bucket_at s2 indexSt0;
          ld = localDepth b0 + 1;
          s3 = set_bucket_at s2 indexSt0 (b0\<lparr>localDepth := ld\<rparr>);
          s4 = set_bucket_at s3 indexSt1 ((bucket_at s3 indexSt1)\<lparr>localDepth := ld\<rparr>);
          s5 = foldl (redistribute_entry h indexSt0 indexSt1 ld) s4
                 [0 ..< length (entries (bucket_at s4 indexSt0))]
      in s5\<lparr>numBuckets := numBuckets s5 + 1\<rparr>)"

text \<open>The \<open>while\<close> loop may run forever (a bucket of capacity 0, or more keys of one hash
  value than a bucket holds); \<open>None\<close> is the loop that does not end.\<close>

partial_function (option) split_loop ::
  "('k \<Rightarrow> nat) \<Rightarrow> 'k \<Rightarrow> nat \<Rightarrow> ('k, 'v) ExtendibleHash
     \<Rightarrow> (nat \<times> ('k, 'v) ExtendibleHash) option" where
  "split_loop h key index s =
     (if bucket_size (bucket_at s index) = bucketMaxSize (bucket_at s index)
      then (let s' = split_bucket h index s in split_loop h key (HashKey h s' key) s')
      else Some (index, s))"

declare split_loop.simps [code]

definition EH_Insert ::
  "('k \<Rightarrow> nat) \<Rightarrow> 'k \<Rightarrow> 'v \<Rightarrow> ('k, 'v) ExtendibleHash \<Rightarrow> ('k, 'v) ExtendibleHash option" where
  "EH_Insert h key val s =
     (let index = HashKey h s key; insertBucket = bucket_at s index
      in case update_entry key val (entries insertBucket) of
           Some es \<Rightarrow> Some (set_bucket_at s index (insertBucket\<lparr>entries := es\<rparr>))
         | None \<Rightarrow>
             (case split_loop h key index s of
                None \<Rightarrow> None
              | Some (index', s') \<Rightarrow>
                  (let b = bucket_at s' index'
                   in case fill_entry key val (entries b) of
                        Some es \<Rightarrow>
                          Some (set_bucket_at s' index'
                                  (b\<lparr>entries := es, bucket_size := bucket_size b + 1\<rparr>))
                      | None \<Rightarrow> Some s')))"

text \<open>A sequence of \<open>Insert\<close> calls.\<close>

fun EH_Insert_all ::
  "('k \<Rightarrow> nat) \<Rightarrow> ('k \<times> 'v) list \<Rightarrow> ('k, 'v) ExtendibleHash
     \<Rightarrow> ('k, 'v) ExtendibleHash option" where
  "EH_Insert_all h [] s = Some s"
| "EH_Insert_all h ((k, v) # kvs) s =
     (case EH_Insert h k v s of None \<Rightarrow> None | Some s' \<Rightarrow> EH_Insert_all h kvs s')"

text \<open>\<open>std::hash<int>\<close> of libstdc++ and libc++ converts the key to \<open>size_t\<close>.\<close>

definition std_hash_int :: "int \<Rightarrow> nat" where
  "std_hash_int k = nat (k mod 2 ^ 64)"

text \<open>The table reached by inserting the keys 0, 1, 2, 4, 7 into a table whose buckets
  hold one entry.\<close>

definition eh_after_0_1_2_4_7 :: "(int, int) ExtendibleHash" where
  "eh_after_0_1_2_4_7 =
     \<lparr>maxBucketSize = 1, globalDepth = 3, numBuckets = 5,
      table = [0, 1, 2, 1, 3, 4, 2, 1],
      heap =
        [\<lparr>entries = [Some (0, 10)], localDepth = 3, bucketMaxSize = 1, bucket_size = 1\<rparr>,
         \<lparr>entries = [Some (7, 17)], localDepth = 2, bucketMaxSize = 1, bucket_size = 1\<rparr>,
         \<lparr>entries = [Some (2, 12)], localDepth = 2, bucketMaxSize = 1, bucket_size = 1\<rparr>,
         \<lparr>entries = [Some (4, 14)], localDepth = 3, bucketMaxSize = 1, bucket_size = 1\<rparr>,
         \<lparr>entries = [Some (1, 11)], localDepth = 2, bucketMaxSize = 1, bucket_size = 1\<rparr>]\<rparr>"

section \<open>Buffer pool manager: DeletePage (buffer_pool_manager.cpp)\<close>

text \<open>
  A \<open>Page *\<close> is the index of the frame in \<open>pages\<close>.  The page table is the extendible
  hash table from page ids to frames and the replacer is the LRU replacer of frames.  The
  disk manager is not part of the sources; the model records the calls made to it, in
  order.  \<open>INVALID_PAGE_ID\<close> is -1 and \<open>HEADER_PAGE_ID\<close> is 0 (config.h is not among the
  sources; these are the values the code relies on when it tests \<open>previous_id > 0\<close>).
\<close>

definition INVALID_PAGE_ID :: int where
  "INVALID_PAGE_ID = - 1"

definition HEADER_PAGE_ID :: int where
  "HEADER_PAGE_ID = 0"

record Page =
  frame_page_id :: int
  pin_count :: int
  is_dirty :: bool
  data :: "nat list"

datatype disk_call =
  ReadPage int | WritePage int "nat list" | AllocatePage | DeallocatePage int

record BufferPoolManager =
  pool_size :: nat
  pages :: "Page list"
  page_table :: "(int, nat) ExtendibleHash"
  replacer :: "nat LRUReplacer"
  free_list :: "nat list"
  disk_manager :: "disk_call list"

definition ResetMemory :: "Page \<Rightarrow> Page" where
  "ResetMemory p = p\<lparr>data := map (\<lambda>b. 0) (data p)\<rparr>"

text \<open>The constructor: every frame is on the free list.  \<open>bucket\<close> is the constant
  \<open>BUCKET_SIZE\<close> and \<open>bytes\<close> is \<open>PAGE_SIZE\<close>.\<close>

definition BufferPoolManager_init :: "nat \<Rightarrow> nat \<Rightarrow> nat \<Rightarrow> BufferPoolManager" where
  "BufferPoolManager_init n bucket bytes =
     \<lparr>pool_size = n,
      pages = replicate n \<lparr>frame_page_id = INVALID_PAGE_ID, pin_count = 0, is_dirty = False,
                           data = replicate bytes 0\<rparr>,
      page_table = ExtendibleHash_init bucket,
      replacer = LRU_empty,
      free_list = [0 ..< n],
      disk_manager = []\<rparr>"

definition BPM_DeletePage ::
  "(int \<Rightarrow> nat) \<Rightarrow> int \<Rightarrow> BufferPoolManager \<Rightarrow> bool \<times> BufferPoolManager" where
  "BPM_DeletePage h page_id b =
     (case EH_Find h page_id (page_table b) of
        Some page \<Rightarrow>
          if pin_count (pages b ! page) > 0 then (False, b)
          else
            (let b1 = b\<lparr>page_table := snd (EH_Remove h page_id (page_table b))\<rparr>;
                 b2 = b1\<lparr>replacer := snd (LRU_Erase page (replacer b1))\<rparr>;
                 p = ResetMemory ((pages b2 ! page)\<lparr>frame_page_id := INVALID_PAGE_ID,
                                                     is_dirty := False\<rparr>);
                 b3 = b2\<lparr>pages := (pages b2)[page := p], free_list := free_list b2 @ [page]\<rparr>
             in (True, b3\<lparr>disk_manager := disk_manager b3 @ [DeallocatePage page_id]\<rparr>))
      | None \<Rightarrow> (True, b\<lparr>disk_manager := disk_manager b @ [DeallocatePage page_id]\<rparr>))"

section \<open>Transactions and the lock manager (lock_manager.h, lock_manager.cpp)\<close>

text \<open>
  The \<open>Transaction\<close> class is not among the sources.  The record holds what the lock
  manager and the B+ tree read and write of it: the id, the state, the two lock sets, the
  page set (the latched pages, by page id, in the order they were added) and the deleted
  page set.
\<close>

datatype TransactionState = GROWING | SHRINKING | COMMITTED | ABORTED

datatype LockType = EXCLUSIVE | SHARED | UPGRADING

type_synonym RID = int
type_synonym txn_id_t = int

record Transaction =
  txn_id :: txn_id_t
  state :: TransactionState
  shared_lock_set :: "RID set"
  exclusive_lock_set :: "RID set"
  page_set :: "int list"
  deleted_page_set :: "int set"

definition new_txn :: "txn_id_t \<Rightarrow> Transaction" where
  "new_txn i =
     \<lparr>txn_id = i, state = GROWING, shared_lock_set = {}, exclusive_lock_set = {},
      page_set = [], deleted_page_set = {}\<rparr>"

record TxLockForRecord =
  req_txn_id :: txn_id_t
  lock_type :: LockType
  granted :: bool

record TxListForRecord =
  locks :: "TxLockForRecord list"
  has_upgrated :: bool

record LockManager =
  strict_2PL :: bool
  lock_table :: "RID \<rightharpoonup> TxListForRecord"

definition LockManager_init :: "bool \<Rightarrow> LockManager" where
  "LockManager_init strict = \<lparr>strict_2PL = strict, lock_table = Map.empty\<rparr>"

definition request :: "txn_id_t \<Rightarrow> LockType \<Rightarrow> bool \<Rightarrow> TxLockForRecord" where
  "request tid lt g = \<lparr>req_txn_id = tid, lock_type = lt, granted = g\<rparr>"

definition Grant :: "TxLockForRecord \<Rightarrow> TxLockForRecord" where
  "Grant tx_lock = tx_lock\<lparr>granted := True\<rparr>"

text \<open>\<open>lock_table_[rid]\<close>: the queue of the record, a new empty queue when the table
  has none (\<open>operator[]\<close> then inserts it, which is what \<open>set_list\<close> stores).\<close>

definition lock_table_at :: "LockManager \<Rightarrow> RID \<Rightarrow> TxListForRecord" where
  "lock_table_at lm rid =
     (case lock_table lm rid of
        None \<Rightarrow> \<lparr>locks = [], has_upgrated = False\<rparr>
      | Some l \<Rightarrow> l)"

definition set_list :: "LockManager \<Rightarrow> RID \<Rightarrow> TxListForRecord \<Rightarrow> LockManager" where
  "set_list lm rid l = lm\<lparr>lock_table := (lock_table lm)(rid \<mapsto> l)\<rparr>"

definition emplace_back ::
  "TxListForRecord \<Rightarrow> txn_id_t \<Rightarrow> LockType \<Rightarrow> bool \<Rightarrow> TxListForRecord" where
  "emplace_back l tid lt g = l\<lparr>locks := locks l @ [request tid lt g]\<rparr>"

text \<open>
  A lock call either returns a boolean or blocks in \<open>Wait\<close> with its request queued.  The
  model of a call runs to that point: the outcome is \<open>Returned b\<close> or \<open>Blocked\<close>.  A
  blocked call goes on when another thread's \<open>Unlock\<close> has granted its request; the
  functions \<open>LockShared_resume\<close> and \<open>LockExclusive_resume\<close> are the rest of the call
  after \<open>Wait\<close>.  Mutexes are not modelled: each function is one critical section.
\<close>

datatype lock_outcome = Returned bool | Blocked

definition LockShared ::
  "Transaction \<Rightarrow> RID \<Rightarrow> LockManager \<Rightarrow> lock_outcome \<times> Transaction \<times> LockManager" where
  "LockShared txn rid lm =
     (if state txn \<noteq> GROWING then (Returned False, txn\<lparr>state := ABORTED\<rparr>, lm)
      else
        (let l = lock_table_at lm rid;
             lm1 = set_list lm rid l;
             can_granted =
               (if locks l = [] then True
                else granted (last (locks l)) \<and> lock_type (last (locks l)) = SHARED)
         in if \<not> can_granted \<and> txn_id txn > req_txn_id (last (locks l))
            then (Returned False, txn\<lparr>state := ABORTED\<rparr>, lm1)
            else
              (let lm2 = set_list lm1 rid (emplace_back l (txn_id txn) SHARED can_granted)
               in if \<not> can_granted then (Blocked, txn, lm2)
                  else (Returned True,
                        txn\<lparr>shared_lock_set := insert rid (shared_lock_set txn)\<rparr>, lm2))))"

definition LockExclusive ::
  "Transaction \<Rightarrow> RID \<Rightarrow> LockManager \<Rightarrow> lock_outcome \<times> Transaction \<times> LockManager" where
  "LockExclusive txn rid lm =
     (if state txn \<noteq> GROWING then (Returned False, txn\<lparr>state := ABORTED\<rparr>, lm)
      else
        (let l = lock_table_at lm rid;
             lm1 = set_list lm rid l;
             can_granted = (locks l = [])
         in if \<not> can_granted \<and> txn_id txn > req_txn_id (last (locks l))
            then (Returned False, txn\<lparr>state := ABORTED\<rparr>, lm1)
            else
              (let lm2 = set_list lm1 rid (emplace_back l (txn_id txn) EXCLUSIVE can_granted)
               in if \<not> can_granted then (Blocked, txn, lm2)
                  else (Returned True,
                        txn\<lparr>exclusive_lock_set := insert rid (exclusive_lock_set txn)\<rparr>, lm2))))"

text \<open>\<open>find_if\<close> for the request of a transaction: the position of the first request
  with that id, \<open>None\<close> for \<open>end()\<close>.\<close>

fun find_if_txn :: "txn_id_t \<Rightarrow> TxLockForRecord list \<Rightarrow> nat option" where
  "find_if_txn tid [] = None"
| "find_if_txn tid (l # ls) =
     (if req_txn_id l = tid then Some 0 else map_option Suc (find_if_txn tid ls))"

definition erase_at :: "nat \<Rightarrow> 'a list \<Rightarrow> 'a list" where
  "erase_at i xs = take i xs @ drop (Suc i) xs"

definition LockUpgrade ::
  "Transaction \<Rightarrow> RID \<Rightarrow> LockManager \<Rightarrow> lock_outcome \<times> Transaction \<times> LockManager" where
  "LockUpgrade txn rid lm =
     (if state txn \<noteq> GROWING then (Returned False, txn\<lparr>state := ABORTED\<rparr>, lm)
      else
        (let l = lock_table_at lm rid;
             lm1 = set_list lm rid l
         in if has_upgrated l then (Returned False, txn\<lparr>state := ABORTED\<rparr>, lm1)
            else
              (case find_if_txn (txn_id txn) (locks l) of
                 None \<Rightarrow> (Returned False, txn\<lparr>state := ABORTED\<rparr>, lm1)
               | Some i \<Rightarrow>
                   if lock_type (locks l ! i) \<noteq> SHARED \<or> \<not> granted (locks l ! i)
                   then (Returned False, txn\<lparr>state := ABORTED\<rparr>, lm1)
                   else
                     (let l1 = l\<lparr>locks := erase_at i (locks l)\<rparr>;
                          lm2 = set_list lm1 rid l1;
                          txn1 = txn\<lparr>shared_lock_set := shared_lock_set txn - {rid}\<rparr>;
                          can_granted = (locks l1 = [])
                      in if \<not> can_granted \<and> txn_id txn > req_txn_id (last (locks l1))
                         then (Returned False, txn1\<lparr>state := ABORTED\<rparr>, lm2)
                         else if can_granted
                         then (Returned True,
                               txn1\<lparr>exclusive_lock_set := insert rid (exclusive_lock_set txn1)\<rparr>,
                               set_list lm2 rid
                                 (emplace_back l1 (txn_id txn) EXCLUSIVE can_granted))
                         else (Blocked, txn1,
                               set_list lm2 rid
                                 ((emplace_back l1 (txn_id txn) UPGRADING can_granted)
                                    \<lparr>has_upgrated := True\<rparr>))))))"

text \<open>\<open>Wait\<close> returns when the request's \<open>granted\<close> flag is set.\<close>

definition Wait_returns :: "Transaction \<Rightarrow> RID \<Rightarrow> LockManager \<Rightarrow> bool" where
  "Wait_returns txn rid lm =
     (case find_if_txn (txn_id txn) (locks (lock_table_at lm rid)) of
        None \<Rightarrow> False
      | Some i \<Rightarrow> granted (locks (lock_table_at lm rid) ! i))"

definition LockShared_resume ::
  "Transaction \<Rightarrow> RID \<Rightarrow> LockManager \<Rightarrow> lock_outcome \<times> Transaction" where
  "LockShared_resume txn rid lm =
     (if Wait_returns txn rid lm
      then (Returned True, txn\<lparr>shared_lock_set := insert rid (shared_lock_set txn)\<rparr>)
      else (Blocked, txn))"

definition LockExclusive_resume ::
  "Transaction \<Rightarrow> RID \<Rightarrow> LockManager \<Rightarrow> lock_outcome \<times> Transaction" where
  "LockExclusive_resume txn rid lm =
     (if Wait_returns txn rid lm
      then (Returned True, txn\<lparr>exclusive_lock_set := insert rid (exclusive_lock_set txn)\<rparr>)
      else (Blocked, txn))"

text \<open>The loop at the end of \<open>Unlock\<close> (step 6), over the queue from its front, with the
  queue's \<open>has_upgrated\<close> flag: \<open>break\<close> at a granted request; otherwise \<open>Grant\<close>, then
  \<open>continue\<close> after a SHARED request, and \<open>break\<close> after any other (an UPGRADING request
  becomes EXCLUSIVE and the flag is cleared).\<close>

fun grant_next :: "TxLockForRecord list \<Rightarrow> bool \<Rightarrow> TxLockForRecord list \<times> bool" where
  "grant_next [] hu = ([], hu)"
| "grant_next (tx_lock # rest) hu =
     (if granted tx_lock then (tx_lock # rest, hu)
      else if lock_type tx_lock = SHARED
      then (let (rest', hu') = grant_next rest hu in (Grant tx_lock # rest', hu'))
      else if lock_type tx_lock = UPGRADING
      then ((Grant tx_lock)\<lparr>lock_type := EXCLUSIVE\<rparr> # rest, False)
      else (Grant tx_lock # rest, hu))"

text \<open>\<open>Unlock\<close> dereferences the iterator that \<open>find_if\<close> returns without comparing it
  with \<open>end()\<close>; the model reports a transaction without a request in the queue as
  \<open>RequestNotFound\<close>.\<close>

datatype unlock_error = RequestNotFound

definition Unlock ::
  "Transaction \<Rightarrow> RID \<Rightarrow> LockManager \<Rightarrow> unlock_error + (bool \<times> Transaction \<times> LockManager)" where
  "Unlock txn rid lm =
     (if strict_2PL lm \<and> state txn \<noteq> COMMITTED \<and> state txn \<noteq> ABORTED
      then Inr (False, txn\<lparr>state := ABORTED\<rparr>, lm)
      else
        (let txn1 = (if \<not> strict_2PL lm \<and> state txn = GROWING
                     then txn\<lparr>state := SHRINKING\<rparr> else txn);
             l = lock_table_at lm rid
         in case find_if_txn (txn_id txn1) (locks l) of
              None \<Rightarrow> Inl RequestNotFound
            | Some i \<Rightarrow>
                (let txn2 = (if lock_type (locks l ! i) = SHARED
                             then txn1\<lparr>shared_lock_set := shared_lock_set txn1 - {rid}\<rparr>
                             else txn1\<lparr>exclusive_lock_set := exclusive_lock_set txn1 - {rid}\<rparr>);
                     ls = erase_at i (locks l)
                 in if ls = []
                    then Inr (True, txn2, lm\<lparr>lock_table := (lock_table lm)(rid := None)\<rparr>)
                    else (let (ls', hu') = grant_next ls (has_upgrated l)
                          in Inr (True, txn2,
                                  set_list lm rid \<lparr>locks = ls', has_upgrated = hu'\<rparr>)))))"

text \<open>
  The walk over the queue as the specification words it: already-granted entries are
  skipped, the first ungranted waiter is granted; after a SHARED waiter the consecutive
  SHARED waiters that follow are granted too; an UPGRADING waiter becomes EXCLUSIVE and
  clears the flag; an EXCLUSIVE waiter ends the walk.
\<close>

fun spec_grant_shared_run :: "TxLockForRecord list \<Rightarrow> TxLockForRecord list" where
  "spec_grant_shared_run [] = []"
| "spec_grant_shared_run (tx_lock # rest) =
     (if lock_type tx_lock = SHARED \<and> \<not> granted tx_lock
      then Grant tx_lock # spec_grant_shared_run rest
      else tx_lock # rest)"

fun spec_grant_next :: "TxLockForRecord list \<Rightarrow> bool \<Rightarrow> TxLockForRecord list \<times> bool" where
  "spec_grant_next [] hu = ([], hu)"
| "spec_grant_next (tx_lock # rest) hu =
     (if granted tx_lock
      then (let (rest', hu') = spec_grant_next rest hu in (tx_lock # rest', hu'))
      else if lock_type tx_lock = SHARED
      then (Grant tx_lock # spec_grant_shared_run rest, hu)
      else if lock_type tx_lock = UPGRADING
      then ((Grant tx_lock)\<lparr>lock_type := EXCLUSIVE\<rparr> # rest, False)
      else (Grant tx_lock # rest, hu))"

text \<open>The queue left when two granted SHARED requests (transactions 5 and 7) are
  followed by a waiting EXCLUSIVE request (transaction 3) and transaction 5 unlocks.\<close>

definition queue_7S_3X :: "TxLockForRecord list" where
  "queue_7S_3X = [request 7 SHARED True, request 3 EXCLUSIVE False]"

section \<open>B+ tree pages (b_plus_tree_leaf_page.cpp, b_plus_tree_internal_page.cpp)\<close>

text \<open>
  A tree page is the header of \<open>BPlusTreePage\<close>, the leaf's \<open>next_page_id\<close> and the slot
  array.  Leaf and internal pages are one record, as they are one block of bytes that the
  code casts to either class; \<open>page_type\<close> tells them apart.  Keys are integers compared by
  their order (the comparator), a leaf's values (record ids) and an internal page's values
  (page ids) are integers.  \<open>array\<close> is indexed by \<open>int\<close> as in the code and is not
  bounded: a slot beyond the page's capacity does not exist in the code, and the operations
  below do not reach one as long as \<open>size \<le> max_size + 1\<close>.  Slots at and beyond \<open>size\<close>
  keep what was last written to them.
\<close>

datatype IndexPageType = INVALID_INDEX_PAGE | LEAF_PAGE | INTERNAL_PAGE

datatype OpType = READ | INSERT | DELETE

record BPlusTreePage =
  page_type :: IndexPageType
  cur_size :: int
  max_size :: int
  parent_page_id :: int
  page_id :: int
  next_page_id :: int
  array :: "int \<Rightarrow> int \<times> int"

text \<open>
  b_plus_tree_page.cpp is not among the sources.  \<open>IsLeafPage\<close> and \<open>IsRootPage\<close> are the
  two tests on the header that the tree code reads.  \<open>GetMinSize\<close> and \<open>IsSafe\<close> are
  methods of the page header without further arguments than the operation; the model takes
  them as parameters: \<open>min_size_of\<close> is a function of the page's kind, of whether it is the
  root and of its \<open>max_size\<close>, and \<open>is_safe\<close> is a function of the operation and of the
  page's kind, whether it is the root, its size and its \<open>max_size\<close>.  The two values of
  \<open>max_size\<close> that \<open>Init\<close> computes from \<open>PAGE_SIZE\<close> and the slot width are
  parameters too.
\<close>

record tree_params =
  leaf_max_size :: int
  internal_max_size :: int
  min_size_of :: "IndexPageType \<Rightarrow> bool \<Rightarrow> int \<Rightarrow> int"
  is_safe :: "OpType \<Rightarrow> IndexPageType \<Rightarrow> bool \<Rightarrow> int \<Rightarrow> int \<Rightarrow> bool"

text \<open>Modelled from the spec: \<open>BPlusTreePage::IsLeafPage\<close> (the kind tag of the page
  header is leaf).\<close>

definition IsLeafPage :: "BPlusTreePage \<Rightarrow> bool" where
  "IsLeafPage p \<longleftrightarrow> page_type p = LEAF_PAGE"

text \<open>Modelled from the spec: \<open>BPlusTreePage::IsRootPage\<close> (the root is the page whose
  parent pointer is cleared, that is \<open>INVALID_PAGE_ID\<close>).\<close>

definition IsRootPage :: "BPlusTreePage \<Rightarrow> bool" where
  "IsRootPage p \<longleftrightarrow> parent_page_id p = INVALID_PAGE_ID"

definition GetMinSize :: "tree_params \<Rightarrow> BPlusTreePage \<Rightarrow> int" where
  "GetMinSize ps p = min_size_of ps (page_type p) (IsRootPage p) (max_size p)"

definition IsSafe :: "tree_params \<Rightarrow> OpType \<Rightarrow> BPlusTreePage \<Rightarrow> bool" where
  "IsSafe ps op p = is_safe ps op (page_type p) (IsRootPage p) (cur_size p) (max_size p)"

definition KeyAt :: "BPlusTreePage \<Rightarrow> int \<Rightarrow> int" where
  "KeyAt p index = fst (array p index)"

definition ValueAt :: "BPlusTreePage \<Rightarrow> int \<Rightarrow> int" where
  "ValueAt p index = snd (array p index)"

definition SetKeyAt :: "BPlusTreePage \<Rightarrow> int \<Rightarrow> int \<Rightarrow> BPlusTreePage" where
  "SetKeyAt p index key = p\<lparr>array := (array p)(index := (key, snd (array p index)))\<rparr>"

definition IncreaseSize :: "BPlusTreePage \<Rightarrow> int \<Rightarrow> BPlusTreePage" where
  "IncreaseSize p amount = p\<lparr>cur_size := cur_size p + amount\<rparr>"

text \<open>The valid slots of a page, in order.\<close>

definition items :: "BPlusTreePage \<Rightarrow> (int \<times> int) list" where
  "items p = map (array p) [0 .. cur_size p - 1]"

text \<open>The loops over the slot array.  \<open>shift_up a hi idx\<close> is
  \<open>for (i = hi; i > idx; --i) a[i] = a[i - 1]\<close>; \<open>shift_down a lo n\<close> is
  \<open>for (i = lo; i < n; ++i) a[i - 1] = a[i]\<close>; \<open>copy_items a off src n\<close> is
  \<open>for (i = 0; i < n; ++i) a[off + i] = src[i]\<close>; \<open>memmove a dst src n\<close> moves \<open>n\<close>
  slots from index \<open>src\<close> to index \<open>dst\<close> as if through a copy.\<close>

definition shift_up :: "(int \<Rightarrow> 'a) \<Rightarrow> int \<Rightarrow> int \<Rightarrow> (int \<Rightarrow> 'a)" where
  "shift_up a hi idx = foldl (\<lambda>a i. a(i := a (i - 1))) a (rev [idx + 1 .. hi])"

definition shift_down :: "(int \<Rightarrow> 'a) \<Rightarrow> int \<Rightarrow> int \<Rightarrow> (int \<Rightarrow> 'a)" where
  "shift_down a lo n = foldl (\<lambda>a i. a(i - 1 := a i)) a [lo .. n - 1]"

definition copy_items :: "(int \<Rightarrow> 'a) \<Rightarrow> int \<Rightarrow> (int \<Rightarrow> 'a) \<Rightarrow> int \<Rightarrow> (int \<Rightarrow> 'a)" where
  "copy_items a off src n = foldl (\<lambda>a i. a(off + i := src i)) a [0 .. n - 1]"

definition memmove :: "(int \<Rightarrow> 'a) \<Rightarrow> int \<Rightarrow> int \<Rightarrow> int \<Rightarrow> (int \<Rightarrow> 'a)" where
  "memmove a dst src n = (\<lambda>i. if dst \<le> i \<and> i < dst + n then a (src + (i - dst)) else a i)"

subsection \<open>Leaf page\<close>

definition Leaf_Init :: "tree_params \<Rightarrow> int \<Rightarrow> int \<Rightarrow> BPlusTreePage \<Rightarrow> BPlusTreePage" where
  "Leaf_Init ps pid parent_id p =
     p\<lparr>page_type := LEAF_PAGE, cur_size := 0, page_id := pid, parent_page_id := parent_id,
       next_page_id := INVALID_PAGE_ID, max_size := leaf_max_size ps\<rparr>"

text \<open>The binary search of \<open>KeyIndex\<close>: the first index whose key is not less than
  \<open>key\<close>.\<close>

function KeyIndex_loop :: "(int \<Rightarrow> int \<times> int) \<Rightarrow> int \<Rightarrow> int \<Rightarrow> int \<Rightarrow> int" where
  "KeyIndex_loop a key le ri =
     (if le \<le> ri
      then (let mid = (ri - le) div 2 + le
            in if fst (a mid) < key then KeyIndex_loop a key (mid + 1) ri
               else KeyIndex_loop a key le (mid - 1))
      else ri + 1)"
  by pat_completeness auto
termination
  by (relation "measure (\<lambda>(a, key, le, ri). nat (ri - le + 1))") auto

declare KeyIndex_loop.simps [simp del]

definition Leaf_KeyIndex :: "BPlusTreePage \<Rightarrow> int \<Rightarrow> int" where
  "Leaf_KeyIndex p key = KeyIndex_loop (array p) key 0 (cur_size p - 1)"

definition Leaf_Insert :: "BPlusTreePage \<Rightarrow> int \<Rightarrow> int \<Rightarrow> BPlusTreePage" where
  "Leaf_Insert p key val =
     (let idx = Leaf_KeyIndex p key;
          p1 = IncreaseSize p 1;
          a1 = shift_up (array p1) (cur_size p1 - 1) idx
      in p1\<lparr>array := a1(idx := (key, val))\<rparr>)"

definition Leaf_CopyHalfFrom ::
  "BPlusTreePage \<Rightarrow> (int \<Rightarrow> int \<times> int) \<Rightarrow> int \<Rightarrow> BPlusTreePage" where
  "Leaf_CopyHalfFrom p src n = p\<lparr>array := copy_items (array p) (cur_size p) src n, cur_size := n\<rparr>"

text \<open>\<open>this->MoveHalfTo(recipient)\<close> for two different pages: the pair is \<open>this\<close> and
  \<open>recipient\<close> afterwards.  \<open>total / 2\<close> is the integer division of C++ (\<open>total\<close> is not
  negative).\<close>

definition Leaf_MoveHalfTo :: "BPlusTreePage \<Rightarrow> BPlusTreePage \<Rightarrow> BPlusTreePage \<times> BPlusTreePage" where
  "Leaf_MoveHalfTo this recipient =
     (let total = max_size this + 1;
          copy_idx = total div 2;
          r1 = Leaf_CopyHalfFrom recipient (\<lambda>i. array this (copy_idx + i)) (total - copy_idx);
          r2 = r1\<lparr>next_page_id := next_page_id this\<rparr>
      in (this\<lparr>next_page_id := page_id r2, cur_size := copy_idx\<rparr>, r2))"

text \<open>\<open>Lookup\<close> returns \<open>Some value\<close> for true with the value stored, \<open>None\<close> for
  false.\<close>

definition Leaf_Lookup :: "BPlusTreePage \<Rightarrow> int \<Rightarrow> int option" where
  "Leaf_Lookup p key =
     (let idx = Leaf_KeyIndex p key
      in if idx < cur_size p \<and> fst (array p idx) = key then Some (snd (array p idx)) else None)"

definition Leaf_RemoveAndDeleteRecord :: "BPlusTreePage \<Rightarrow> int \<Rightarrow> int \<times> BPlusTreePage" where
  "Leaf_RemoveAndDeleteRecord p key =
     (let idx_gt_key = Leaf_KeyIndex p key
      in if idx_gt_key \<ge> cur_size p \<or> key \<noteq> KeyAt p idx_gt_key then (cur_size p, p)
         else
           (let p1 = p\<lparr>array := memmove (array p) idx_gt_key (idx_gt_key + 1)
                                   (cur_size p - idx_gt_key - 1)\<rparr>;
                p2 = IncreaseSize p1 (- 1)
            in (cur_size p2, p2)))"

definition Leaf_CopyAllFrom ::
  "BPlusTreePage \<Rightarrow> (int \<Rightarrow> int \<times> int) \<Rightarrow> int \<Rightarrow> BPlusTreePage" where
  "Leaf_CopyAllFrom p src n =
     IncreaseSize (p\<lparr>array := copy_items (array p) (cur_size p) src n\<rparr>) n"

definition Leaf_MoveAllTo :: "BPlusTreePage \<Rightarrow> BPlusTreePage \<Rightarrow> BPlusTreePage \<times> BPlusTreePage" where
  "Leaf_MoveAllTo this recipient =
     (let r1 = Leaf_CopyAllFrom recipient (array this) (cur_size this);
          r2 = r1\<lparr>next_page_id := next_page_id this\<rparr>
      in (this\<lparr>cur_size := 0\<rparr>, r2))"

text \<open>\<open>CopyLastFrom\<close> has one body in both page classes.\<close>

definition CopyLastFrom :: "BPlusTreePage \<Rightarrow> int \<times> int \<Rightarrow> BPlusTreePage" where
  "CopyLastFrom p item = IncreaseSize (p\<lparr>array := (array p)(cur_size p := item)\<rparr>) 1"

subsection \<open>Internal page\<close>

text \<open>\<open>Init(page_id)\<close> is called with its second argument defaulted; the default is
  \<open>INVALID_PAGE_ID\<close> (the new root must pass \<open>IsRootPage\<close>).\<close>

definition Internal_Init :: "tree_params \<Rightarrow> int \<Rightarrow> int \<Rightarrow> BPlusTreePage \<Rightarrow> BPlusTreePage" where
  "Internal_Init ps pid parent_id p =
     p\<lparr>page_type := INTERNAL_PAGE, cur_size := 0, page_id := pid, parent_page_id := parent_id,
       max_size := internal_max_size ps\<rparr>"

definition Internal_ValueIndex :: "BPlusTreePage \<Rightarrow> int \<Rightarrow> int" where
  "Internal_ValueIndex p v =
     (case List.find (\<lambda>i. ValueAt p i = v) [0 .. cur_size p - 1] of
        Some i \<Rightarrow> i
      | None \<Rightarrow> - 1)"

function Lookup_loop :: "(int \<Rightarrow> int \<times> int) \<Rightarrow> int \<Rightarrow> int \<Rightarrow> int \<Rightarrow> int" where
  "Lookup_loop a key le ri =
     (if le \<le> ri
      then (let mid = (ri - le) div 2 + le
            in if fst (a mid) \<le> key then Lookup_loop a key (mid + 1) ri
               else Lookup_loop a key le (mid - 1))
      else le)"
  by pat_completeness auto
termination
  by (relation "measure (\<lambda>(a, key, le, ri). nat (ri - le + 1))") auto

declare Lookup_loop.simps [simp del]

definition Internal_Lookup :: "BPlusTreePage \<Rightarrow> int \<Rightarrow> int" where
  "Internal_Lookup p key = snd (array p (Lookup_loop (array p) key 1 (cur_size p - 1) - 1))"

definition Internal_PopulateNewRoot :: "BPlusTreePage \<Rightarrow> int \<Rightarrow> int \<Rightarrow> int \<Rightarrow> BPlusTreePage" where
  "Internal_PopulateNewRoot p old_value new_key new_value =
     p\<lparr>array := ((array p)(0 := (fst (array p 0), old_value)))(1 := (new_key, new_value)),
       cur_size := 2\<rparr>"

definition Internal_InsertNodeAfter :: "BPlusTreePage \<Rightarrow> int \<Rightarrow> int \<Rightarrow> int \<Rightarrow> BPlusTreePage" where
  "Internal_InsertNodeAfter p old_value new_key new_value =
     (let idx = Internal_ValueIndex p old_value + 1;
          p1 = IncreaseSize p 1;
          a1 = shift_up (array p1) (cur_size p1 - 1) idx
      in p1\<lparr>array := a1(idx := (new_key, new_value))\<rparr>)"

definition Internal_Remove :: "BPlusTreePage \<Rightarrow> int \<Rightarrow> BPlusTreePage" where
  "Internal_Remove p index =
     IncreaseSize (p\<lparr>array := shift_down (array p) (index + 1) (cur_size p)\<rparr>) (- 1)"

definition Internal_RemoveAndReturnOnlyChild :: "BPlusTreePage \<Rightarrow> int \<times> BPlusTreePage" where
  "Internal_RemoveAndReturnOnlyChild p = (ValueAt (IncreaseSize p (- 1)) 0, IncreaseSize p (- 1))"

section \<open>B+ tree (b_plus_tree.h, b_plus_tree.cpp, index_iterator.cpp)\<close>

text \<open>
  The tree reaches its pages through the buffer pool; a pointer to a tree page is valid
  while the page is pinned.  The model sees the buffer pool and the disk as one store
  \<open>pool\<close> from page ids to tree pages: a pointer to a page is its page id, a read or a
  write through the pointer is a read or a write of the store, \<open>NewPage\<close> takes the disk
  manager's next page id and stores a zeroed page, \<open>FetchPage\<close> of an id that the store
  does not hold is the error \<open>PageNotFound\<close>, and \<open>DeletePage\<close> removes the page and
  records the id as deallocated.  Pin counts, dirty flags, page latches and the root latch
  are not modelled, and the pool is never exhausted.  The header page's record for this
  index is \<open>header_record\<close>.
\<close>

record BPlusTree =
  root_page_id :: int
  pool :: "int \<rightharpoonup> BPlusTreePage"
  disk_next_page_id :: int
  header_record :: "int option"
  deallocated :: "int list"

datatype tree_error = PageNotFound int | NullTransaction | NullPage

definition bindE :: "'e + 'a \<Rightarrow> ('a \<Rightarrow> 'e + 'b) \<Rightarrow> 'e + 'b" where
  "bindE m f = (case m of Inl e \<Rightarrow> Inl e | Inr x \<Rightarrow> f x)"

primrec foldE :: "('s \<Rightarrow> 'a \<Rightarrow> 'e + 's) \<Rightarrow> 's \<Rightarrow> 'a list \<Rightarrow> 'e + 's" where
  "foldE f s [] = Inr s"
| "foldE f s (x # xs) = bindE (f s x) (\<lambda>s'. foldE f s' xs)"

definition zero_page :: BPlusTreePage where
  "zero_page =
     \<lparr>page_type = INVALID_INDEX_PAGE, cur_size = 0, max_size = 0, parent_page_id = 0,
      page_id = 0, next_page_id = 0, array = (\<lambda>i. (0, 0))\<rparr>"

definition pool_FetchPage :: "int \<Rightarrow> BPlusTree \<Rightarrow> tree_error + BPlusTreePage" where
  "pool_FetchPage pid t = (case pool t pid of None \<Rightarrow> Inl (PageNotFound pid) | Some p \<Rightarrow> Inr p)"

definition pool_write :: "int \<Rightarrow> BPlusTreePage \<Rightarrow> BPlusTree \<Rightarrow> BPlusTree" where
  "pool_write pid p t = t\<lparr>pool := (pool t)(pid \<mapsto> p)\<rparr>"

definition pool_NewPage :: "BPlusTree \<Rightarrow> int \<times> BPlusTree" where
  "pool_NewPage t =
     (disk_next_page_id t,
      t\<lparr>pool := (pool t)(disk_next_page_id t \<mapsto> zero_page),
        disk_next_page_id := disk_next_page_id t + 1\<rparr>)"

definition pool_DeletePage :: "int \<Rightarrow> BPlusTree \<Rightarrow> BPlusTree" where
  "pool_DeletePage pid t = t\<lparr>pool := (pool t)(pid := None), deallocated := deallocated t @ [pid]\<rparr>"

text \<open>A method applied to the page behind a pointer.\<close>

definition pool_update ::
  "int \<Rightarrow> (BPlusTreePage \<Rightarrow> BPlusTreePage) \<Rightarrow> BPlusTree \<Rightarrow> tree_error + BPlusTree" where
  "pool_update pid f t = bindE (pool_FetchPage pid t) (\<lambda>p. Inr (pool_write pid (f p) t))"

definition SetParentPageId :: "int \<Rightarrow> BPlusTreePage \<Rightarrow> BPlusTreePage" where
  "SetParentPageId parent_id p = p\<lparr>parent_page_id := parent_id\<rparr>"

text \<open>Modelled from the spec: \<open>HeaderPage::InsertRecord\<close> and \<open>HeaderPage::UpdateRecord\<close>
  (header_page.cpp is not among the sources): the record of the index name is inserted on
  first creation and updated thereafter.\<close>

definition UpdateRootPageId :: "bool \<Rightarrow> BPlusTree \<Rightarrow> BPlusTree" where
  "UpdateRootPageId insert_record t =
     (if insert_record
      then (case header_record t of
              None \<Rightarrow> t\<lparr>header_record := Some (root_page_id t)\<rparr>
            | Some r \<Rightarrow> t)
      else (case header_record t of
              None \<Rightarrow> t
            | Some r \<Rightarrow> t\<lparr>header_record := Some (root_page_id t)\<rparr>))"

definition IsEmpty :: "BPlusTree \<Rightarrow> bool" where
  "IsEmpty t \<longleftrightarrow> root_page_id t = INVALID_PAGE_ID"

definition AddIntoPageSet :: "int \<Rightarrow> Transaction \<Rightarrow> Transaction" where
  "AddIntoPageSet pid txn = txn\<lparr>page_set := page_set txn @ [pid]\<rparr>"

definition AddIntoDeletedPageSet :: "int \<Rightarrow> Transaction \<Rightarrow> Transaction" where
  "AddIntoDeletedPageSet pid txn = txn\<lparr>deleted_page_set := insert pid (deleted_page_set txn)\<rparr>"

subsection \<open>Page methods that reach other pages through the buffer pool\<close>

definition Leaf_MoveFirstToEndOf :: "int \<Rightarrow> int \<Rightarrow> BPlusTree \<Rightarrow> tree_error + BPlusTree" where
  "Leaf_MoveFirstToEndOf this recipient t =
     bindE (pool_FetchPage this t) (\<lambda>p.
     let first_pair = array p 0;
         p1 = IncreaseSize p (- 1);
         t1 = pool_write this (p1\<lparr>array := memmove (array p1) 0 1 (cur_size p1)\<rparr>) t
     in
     bindE (pool_update recipient (\<lambda>r. CopyLastFrom r first_pair) t1) (\<lambda>t2.
     bindE (pool_FetchPage this t2) (\<lambda>p2.
     bindE (pool_FetchPage (parent_page_id p2) t2) (\<lambda>parent.
     Inr (pool_write (parent_page_id p2)
            (SetKeyAt parent (Internal_ValueIndex parent (page_id p2)) (fst (array p2 0))) t2)))))"

definition Leaf_CopyFirstFrom ::
  "int \<Rightarrow> int \<times> int \<Rightarrow> int \<Rightarrow> BPlusTree \<Rightarrow> tree_error + BPlusTree" where
  "Leaf_CopyFirstFrom this item parent_index t =
     bindE (pool_FetchPage this t) (\<lambda>p.
     let p1 = IncreaseSize (p\<lparr>array := memmove (array p) 1 0 (cur_size p)\<rparr>) 1;
         p2 = p1\<lparr>array := (array p1)(0 := item)\<rparr>;
         t1 = pool_write this p2 t
     in
     bindE (pool_FetchPage (parent_page_id p2) t1) (\<lambda>parent.
     Inr (pool_write (parent_page_id p2) (SetKeyAt parent parent_index (fst (array p2 0))) t1)))"

definition Leaf_MoveLastToFrontOf ::
  "int \<Rightarrow> int \<Rightarrow> int \<Rightarrow> BPlusTree \<Rightarrow> tree_error + BPlusTree" where
  "Leaf_MoveLastToFrontOf this recipient parent_index t =
     bindE (pool_FetchPage this t) (\<lambda>p.
     let last_pair = array p (cur_size p - 1);
         t1 = pool_write this (IncreaseSize p (- 1)) t
     in Leaf_CopyFirstFrom recipient last_pair parent_index t1)"

text \<open>One round of the loops of the internal page's \<open>CopyHalfFrom\<close> and
  \<open>CopyAllFrom\<close>: slot \<open>off + i\<close> of \<open>this\<close> is set to \<open>src[i]\<close> and the child that the
  slot points to gets \<open>this\<close> as its parent.\<close>

definition Internal_copy_slot ::
  "int \<Rightarrow> int \<Rightarrow> (int \<Rightarrow> int \<times> int) \<Rightarrow> BPlusTree \<Rightarrow> int \<Rightarrow> tree_error + BPlusTree" where
  "Internal_copy_slot this off src t i =
     bindE (pool_update this (\<lambda>p. p\<lparr>array := (array p)(off + i := src i)\<rparr>) t) (\<lambda>t1.
     bindE (pool_FetchPage (snd (src i)) t1) (\<lambda>child.
     bindE (pool_FetchPage this t1) (\<lambda>p.
     Inr (pool_write (snd (src i)) (SetParentPageId (page_id p) child) t1))))"

definition Internal_CopyHalfFrom ::
  "int \<Rightarrow> (int \<Rightarrow> int \<times> int) \<Rightarrow> int \<Rightarrow> BPlusTree \<Rightarrow> tree_error + BPlusTree" where
  "Internal_CopyHalfFrom this src n t =
     bindE (foldE (Internal_copy_slot this 0 src) t [0 .. n - 1]) (\<lambda>t1.
     pool_update this (\<lambda>p. p\<lparr>cur_size := n\<rparr>) t1)"

definition Internal_MoveHalfTo :: "int \<Rightarrow> int \<Rightarrow> BPlusTree \<Rightarrow> tree_error + BPlusTree" where
  "Internal_MoveHalfTo this recipient t =
     bindE (pool_FetchPage this t) (\<lambda>p.
     let total = max_size p + 1;
         copy_idx = total div 2
     in
     bindE (Internal_CopyHalfFrom recipient (\<lambda>i. array p (copy_idx + i)) (total - copy_idx) t)
       (\<lambda>t1.
     pool_update this (\<lambda>p. p\<lparr>cur_size := copy_idx\<rparr>) t1))"

definition Internal_CopyAllFrom ::
  "int \<Rightarrow> (int \<Rightarrow> int \<times> int) \<Rightarrow> int \<Rightarrow> BPlusTree \<Rightarrow> tree_error + BPlusTree" where
  "Internal_CopyAllFrom this src n t =
     bindE (pool_FetchPage this t) (\<lambda>p.
     bindE (foldE (Internal_copy_slot this (cur_size p) src) t [0 .. n - 1]) (\<lambda>t1.
     pool_update this (\<lambda>p. IncreaseSize p n) t1))"

definition Internal_MoveAllTo ::
  "int \<Rightarrow> int \<Rightarrow> int \<Rightarrow> BPlusTree \<Rightarrow> tree_error + BPlusTree" where
  "Internal_MoveAllTo this recipient index_in_parent t =
     bindE (pool_FetchPage this t) (\<lambda>p.
     bindE (pool_FetchPage (parent_page_id p) t) (\<lambda>parent.
     let p1 = SetKeyAt p 0 (KeyAt parent index_in_parent);
         t1 = pool_write this p1 t
     in
     bindE (Internal_CopyAllFrom recipient (array p1) (cur_size p1) t1) (\<lambda>t2.
     pool_update this (\<lambda>p. p\<lparr>cur_size := 0\<rparr>) t2)))"

definition Internal_MoveFirstToEndOf :: "int \<Rightarrow> int \<Rightarrow> BPlusTree \<Rightarrow> tree_error + BPlusTree" where
  "Internal_MoveFirstToEndOf this recipient t =
     bindE (pool_FetchPage this t) (\<lambda>p.
     let first_pair = (KeyAt p 0, ValueAt p 0);
         p1 = IncreaseSize p (- 1);
         t1 = pool_write this (p1\<lparr>array := memmove (array p1) 0 1 (cur_size p1)\<rparr>) t
     in
     bindE (pool_update recipient (\<lambda>r. CopyLastFrom r first_pair) t1) (\<lambda>t2.
     bindE (pool_FetchPage (snd first_pair) t2) (\<lambda>child.
     bindE (pool_FetchPage recipient t2) (\<lambda>r.
     let t3 = pool_write (snd first_pair) (SetParentPageId (page_id r) child) t2 in
     bindE (pool_FetchPage this t3) (\<lambda>p2.
     bindE (pool_FetchPage (parent_page_id p2) t3) (\<lambda>parent.
     Inr (pool_write (parent_page_id p2)
            (SetKeyAt parent (Internal_ValueIndex parent (page_id p2)) (fst (array p2 0)))
            t3)))))))"

definition Internal_CopyFirstFrom ::
  "int \<Rightarrow> int \<times> int \<Rightarrow> int \<Rightarrow> BPlusTree \<Rightarrow> tree_error + BPlusTree" where
  "Internal_CopyFirstFrom this pair parent_index t =
     bindE (pool_FetchPage this t) (\<lambda>p.
     let p1 = IncreaseSize (p\<lparr>array := memmove (array p) 1 0 (cur_size p)\<rparr>) 1;
         p2 = p1\<lparr>array := (array p1)(0 := pair)\<rparr>;
         t1 = pool_write this p2 t
     in
     bindE (pool_FetchPage (snd pair) t1) (\<lambda>child.
     bindE (pool_FetchPage this t1) (\<lambda>p3.
     let t2 = pool_write (snd pair) (SetParentPageId (page_id p3) child) t1 in
     bindE (pool_FetchPage this t2) (\<lambda>p4.
     bindE (pool_FetchPage (parent_page_id p4) t2) (\<lambda>parent.
     Inr (pool_write (parent_page_id p4) (SetKeyAt parent parent_index (fst (array p4 0)))
            t2))))))"

definition Internal_MoveLastToFrontOf ::
  "int \<Rightarrow> int \<Rightarrow> int \<Rightarrow> BPlusTree \<Rightarrow> tree_error + BPlusTree" where
  "Internal_MoveLastToFrontOf this recipient parent_index t =
     bindE (pool_FetchPage this t) (\<lambda>p.
     let last_pair = (KeyAt p (cur_size p - 1), ValueAt p (cur_size p - 1));
         t1 = pool_write this (IncreaseSize p (- 1)) t
     in Internal_CopyFirstFrom recipient last_pair parent_index t1)"

subsection \<open>Latch crabbing: what it does to the transaction and to the pool\<close>

text \<open>
  \<open>RemovePagesInTransaction\<close> without a transaction fetches \<open>cur_id\<close> to unlatch and
  unpin it.  \<open>FetchPage\<close> hands back a frame for any page id, also for the default
  \<open>INVALID_PAGE_ID\<close>, and the page's contents are not looked at, so nothing of the state
  changes.  With a transaction it goes through the page set: each page is unlatched and
  unpinned, and deleted from the pool when its id is in the deleted page set.
\<close>

definition RemovePagesInTransaction ::
  "Transaction option \<Rightarrow> int \<Rightarrow> BPlusTree \<Rightarrow> tree_error + (Transaction option \<times> BPlusTree)" where
  "RemovePagesInTransaction transaction cur_id t =
     (case transaction of
        None \<Rightarrow> Inr (None, t)
      | Some txn \<Rightarrow>
          (let (ds, t1) =
                 foldl (\<lambda>(ds, t) pid.
                          if pid \<in> ds then (ds - {pid}, pool_DeletePage pid t) else (ds, t))
                   (deleted_page_set txn, t) (page_set txn)
           in Inr (Some (txn\<lparr>page_set := [], deleted_page_set := ds\<rparr>), t1)))"

definition ConcurrentFetchPage ::
  "tree_params \<Rightarrow> int \<Rightarrow> OpType \<Rightarrow> int \<Rightarrow> Transaction option \<Rightarrow> BPlusTree
     \<Rightarrow> tree_error + (Transaction option \<times> BPlusTree)" where
  "ConcurrentFetchPage ps pid op previous_id transaction t =
     bindE (pool_FetchPage pid t) (\<lambda>tree_page.
     bindE (if previous_id > 0 \<and> (op = READ \<or> IsSafe ps op tree_page)
            then RemovePagesInTransaction transaction previous_id t
            else Inr (transaction, t)) (\<lambda>(txn1, t1).
     Inr (map_option (AddIntoPageSet pid) txn1, t1)))"

text \<open>The descent of \<open>FindLeafPage\<close> from the page \<open>ptr\<close>.  A pool whose child pointers
  form a cycle makes the loop run forever: \<open>None\<close>.\<close>

partial_function (option) FindLeafPage_loop ::
  "tree_params \<Rightarrow> int \<Rightarrow> bool \<Rightarrow> OpType \<Rightarrow> int \<Rightarrow> Transaction option \<Rightarrow> BPlusTree
     \<Rightarrow> (tree_error + (int \<times> Transaction option \<times> BPlusTree)) option" where
  "FindLeafPage_loop ps key leftMost op ptr transaction t =
     (case pool_FetchPage ptr t of
        Inl e \<Rightarrow> Some (Inl e)
      | Inr tree_page \<Rightarrow>
          if IsLeafPage tree_page then Some (Inr (ptr, transaction, t))
          else
            (let next_id = (if leftMost then ValueAt tree_page 0
                            else Internal_Lookup tree_page key)
             in case ConcurrentFetchPage ps next_id op ptr transaction t of
                  Inl e \<Rightarrow> Some (Inl e)
                | Inr (txn1, t1) \<Rightarrow> FindLeafPage_loop ps key leftMost op next_id txn1 t1))"

text \<open>\<open>FindLeafPage\<close> returns a null pointer (\<open>None\<close>) for an empty tree.\<close>

definition FindLeafPage ::
  "tree_params \<Rightarrow> int \<Rightarrow> bool \<Rightarrow> OpType \<Rightarrow> Transaction option \<Rightarrow> BPlusTree
     \<Rightarrow> (tree_error + (int option \<times> Transaction option \<times> BPlusTree)) option" where
  "FindLeafPage ps key leftMost op transaction t =
     (if IsEmpty t then Some (Inr (None, transaction, t))
      else
        (case ConcurrentFetchPage ps (root_page_id t) op INVALID_PAGE_ID transaction t of
           Inl e \<Rightarrow> Some (Inl e)
         | Inr (txn1, t1) \<Rightarrow>
             Option.bind (FindLeafPage_loop ps key leftMost op (root_page_id t) txn1 t1)
               (\<lambda>r. case r of
                      Inl e \<Rightarrow> Some (Inl e)
                    | Inr (ptr, txn2, t2) \<Rightarrow> Some (Inr (Some ptr, txn2, t2)))))"

subsection \<open>Search\<close>

definition GetValue ::
  "tree_params \<Rightarrow> int \<Rightarrow> Transaction option \<Rightarrow> BPlusTree
     \<Rightarrow> (tree_error + (int option \<times> Transaction option \<times> BPlusTree)) option" where
  "GetValue ps key transaction t =
     Option.bind (FindLeafPage ps key False READ transaction t)
       (\<lambda>r. case r of
              Inl e \<Rightarrow> Some (Inl e)
            | Inr (None, txn1, t1) \<Rightarrow> Some (Inr (None, txn1, t1))
            | Inr (Some ptr, txn1, t1) \<Rightarrow>
                Some (bindE (pool_FetchPage ptr t1) (\<lambda>res_page.
                      bindE (RemovePagesInTransaction txn1 (page_id res_page) t1) (\<lambda>(txn2, t2).
                      Inr (Leaf_Lookup res_page key, txn2, t2)))))"

subsection \<open>Insertion\<close>

definition StartNewTree :: "tree_params \<Rightarrow> int \<Rightarrow> int \<Rightarrow> BPlusTree \<Rightarrow> BPlusTree" where
  "StartNewTree ps key val t =
     (let (new_page_id, t1) = pool_NewPage t;
          t2 = pool_write new_page_id (Leaf_Init ps new_page_id INVALID_PAGE_ID zero_page) t1;
          t3 = UpdateRootPageId True (t2\<lparr>root_page_id := new_page_id\<rparr>)
      in pool_write new_page_id
           (Leaf_Insert (Leaf_Init ps new_page_id INVALID_PAGE_ID zero_page) key val) t3)"

text \<open>\<open>Split\<close> for a leaf.  It calls \<open>transaction->AddIntoPageSet\<close> without a test for a
  null transaction.\<close>

definition Split_leaf ::
  "tree_params \<Rightarrow> int \<Rightarrow> Transaction option \<Rightarrow> BPlusTree
     \<Rightarrow> tree_error + (int \<times> Transaction option \<times> BPlusTree)" where
  "Split_leaf ps node transaction t =
     (let (new_page_id, t1) = pool_NewPage t
      in case transaction of
           None \<Rightarrow> Inl NullTransaction
         | Some txn \<Rightarrow>
             bindE (pool_FetchPage node t1) (\<lambda>n.
             bindE (pool_update new_page_id (Leaf_Init ps new_page_id (parent_page_id n)) t1)
               (\<lambda>t2.
             bindE (pool_FetchPage node t2) (\<lambda>n2.
             bindE (pool_FetchPage new_page_id t2) (\<lambda>r.
             let (n3, r3) = Leaf_MoveHalfTo n2 r
             in Inr (new_page_id, Some (AddIntoPageSet new_page_id txn),
                     pool_write node n3 (pool_write new_page_id r3 t2)))))))"

definition Split_internal ::
  "tree_params \<Rightarrow> int \<Rightarrow> Transaction option \<Rightarrow> BPlusTree
     \<Rightarrow> tree_error + (int \<times> Transaction option \<times> BPlusTree)" where
  "Split_internal ps node transaction t =
     (let (new_page_id, t1) = pool_NewPage t
      in case transaction of
           None \<Rightarrow> Inl NullTransaction
         | Some txn \<Rightarrow>
             bindE (pool_FetchPage node t1) (\<lambda>n.
             bindE (pool_update new_page_id (Internal_Init ps new_page_id (parent_page_id n)) t1)
               (\<lambda>t2.
             bindE (Internal_MoveHalfTo node new_page_id t2) (\<lambda>t3.
             Inr (new_page_id, Some (AddIntoPageSet new_page_id txn), t3)))))"

text \<open>The first case of \<open>InsertIntoParent\<close>: \<open>old_node\<close> is the root.\<close>

definition InsertIntoParent_root ::
  "tree_params \<Rightarrow> int \<Rightarrow> int \<Rightarrow> int \<Rightarrow> BPlusTree \<Rightarrow> tree_error + BPlusTree" where
  "InsertIntoParent_root ps old_node key new_node t =
     (let (rid, t0) = pool_NewPage t;
          t1 = t0\<lparr>root_page_id := rid\<rparr>
      in
      bindE (pool_update rid (Internal_Init ps rid INVALID_PAGE_ID) t1) (\<lambda>t2.
      bindE (pool_FetchPage old_node t2) (\<lambda>old.
      bindE (pool_FetchPage new_node t2) (\<lambda>new.
      bindE (pool_update rid
               (\<lambda>p. Internal_PopulateNewRoot p (page_id old) key (page_id new)) t2) (\<lambda>t3.
      bindE (pool_update old_node (SetParentPageId (root_page_id t3)) t3) (\<lambda>t4.
      bindE (pool_update new_node (SetParentPageId (root_page_id t4)) t4) (\<lambda>t5.
      Inr (UpdateRootPageId False t5))))))))"

text \<open>The second case, up to the test for a split of the parent: the pair is the
  parent's page id and the pool.\<close>

definition InsertIntoParent_insert ::
  "int \<Rightarrow> int \<Rightarrow> int \<Rightarrow> BPlusTree \<Rightarrow> tree_error + (int \<times> BPlusTree)" where
  "InsertIntoParent_insert old_node key new_node t =
     bindE (pool_FetchPage old_node t) (\<lambda>old.
     let parent_id = parent_page_id old in
     bindE (pool_FetchPage parent_id t) (\<lambda>parent0.
     bindE (pool_update new_node (SetParentPageId parent_id) t) (\<lambda>t1.
     bindE (pool_FetchPage old_node t1) (\<lambda>old1.
     bindE (pool_FetchPage new_node t1) (\<lambda>new1.
     bindE (pool_update parent_id
              (\<lambda>p. Internal_InsertNodeAfter p (page_id old1) key (page_id new1)) t1) (\<lambda>t2.
     Inr (parent_id, t2)))))))"

partial_function (option) InsertIntoParent ::
  "tree_params \<Rightarrow> int \<Rightarrow> int \<Rightarrow> int \<Rightarrow> Transaction option \<Rightarrow> BPlusTree
     \<Rightarrow> (tree_error + (Transaction option \<times> BPlusTree)) option" where
  "InsertIntoParent ps old_node key new_node transaction t =
     (case pool_FetchPage old_node t of
        Inl e \<Rightarrow> Some (Inl e)
      | Inr old \<Rightarrow>
          if IsRootPage old
          then Some (bindE (InsertIntoParent_root ps old_node key new_node t)
                       (\<lambda>t1. Inr (transaction, t1)))
          else
            (case InsertIntoParent_insert old_node key new_node t of
               Inl e \<Rightarrow> Some (Inl e)
             | Inr (parent_id, t2) \<Rightarrow>
                 (case pool_FetchPage parent_id t2 of
                    Inl e \<Rightarrow> Some (Inl e)
                  | Inr parent \<Rightarrow>
                      if cur_size parent > max_size parent
                      then
                        (case Split_internal ps parent_id transaction t2 of
                           Inl e \<Rightarrow> Some (Inl e)
                         | Inr (split_page, txn1, t3) \<Rightarrow>
                             (case pool_FetchPage split_page t3 of
                                Inl e \<Rightarrow> Some (Inl e)
                              | Inr sp \<Rightarrow>
                                  InsertIntoParent ps parent_id (KeyAt sp 0) split_page txn1 t3))
                      else Some (Inr (transaction, t2)))))"

text \<open>The end of \<open>InsertIntoLeaf\<close> and of \<open>Remove\<close>: the pages of the transaction are
  released (\<open>cur_id\<close> is defaulted to \<open>INVALID_PAGE_ID\<close>).\<close>

definition release_all ::
  "'a \<Rightarrow> Transaction option \<Rightarrow> BPlusTree \<Rightarrow> tree_error + ('a \<times> Transaction option \<times> BPlusTree)" where
  "release_all ret transaction t =
     bindE (RemovePagesInTransaction transaction INVALID_PAGE_ID t) (\<lambda>(txn1, t1).
     Inr (ret, txn1, t1))"

definition InsertIntoLeaf ::
  "tree_params \<Rightarrow> int \<Rightarrow> int \<Rightarrow> Transaction option \<Rightarrow> BPlusTree
     \<Rightarrow> (tree_error + (bool \<times> Transaction option \<times> BPlusTree)) option" where
  "InsertIntoLeaf ps key val transaction t =
     Option.bind (FindLeafPage ps key False INSERT transaction t)
       (\<lambda>r. case r of
              Inl e \<Rightarrow> Some (Inl e)
            | Inr (None, txn1, t1) \<Rightarrow> Some (Inl NullPage)
            | Inr (Some insert_page, txn1, t1) \<Rightarrow>
                (case pool_FetchPage insert_page t1 of
                   Inl e \<Rightarrow> Some (Inl e)
                 | Inr p \<Rightarrow>
                     if Leaf_Lookup p key \<noteq> None then Some (release_all False txn1 t1)
                     else
                       (let p1 = Leaf_Insert p key val;
                            t2 = pool_write insert_page p1 t1
                        in if cur_size p1 > max_size p1
                           then
                             (case Split_leaf ps insert_page txn1 t2 of
                                Inl e \<Rightarrow> Some (Inl e)
                              | Inr (split_page, txn2, t3) \<Rightarrow>
                                  (case pool_FetchPage split_page t3 of
                                     Inl e \<Rightarrow> Some (Inl e)
                                   | Inr sp \<Rightarrow>
                                       Option.bind
                                         (InsertIntoParent ps insert_page (KeyAt sp 0)
                                            split_page txn2 t3)
                                         (\<lambda>r. case r of
                                                Inl e \<Rightarrow> Some (Inl e)
                                              | Inr (txn3, t4) \<Rightarrow>
                                                  Some (release_all True txn3 t4))))
                           else Some (release_all True txn1 t2))))"

definition BPT_Insert ::
  "tree_params \<Rightarrow> int \<Rightarrow> int \<Rightarrow> Transaction option \<Rightarrow> BPlusTree
     \<Rightarrow> (tree_error + (bool \<times> Transaction option \<times> BPlusTree)) option" where
  "BPT_Insert ps key val transaction t =
     (if IsEmpty t then Some (Inr (True, transaction, StartNewTree ps key val t))
      else InsertIntoLeaf ps key val transaction t)"


text \<open>A sequence of \<open>Insert\<close> calls with one transaction object; the list of the
  booleans returned.\<close>

fun BPT_Insert_all ::
  "tree_params \<Rightarrow> (int \<times> int) list \<Rightarrow> Transaction option \<Rightarrow> BPlusTree
     \<Rightarrow> (tree_error + (bool list \<times> Transaction option \<times> BPlusTree)) option" where
  "BPT_Insert_all ps [] transaction t = Some (Inr ([], transaction, t))"
| "BPT_Insert_all ps ((k, v) # kvs) transaction t =
     Option.bind (BPT_Insert ps k v transaction t)
       (\<lambda>r. case r of
              Inl e \<Rightarrow> Some (Inl e)
            | Inr (b, txn1, t1) \<Rightarrow>
                Option.bind (BPT_Insert_all ps kvs txn1 t1)
                  (\<lambda>r. case r of
                         Inl e \<Rightarrow> Some (Inl e)
                       | Inr (bs, txn2, t2) \<Rightarrow> Some (Inr (b # bs, txn2, t2))))"

text \<open>A tree as its constructor leaves it (no root), on a pool without tree pages whose
  disk manager hands out \<open>n\<close> as the next page id.\<close>

definition BPlusTree_init :: "int \<Rightarrow> BPlusTree" where
  "BPlusTree_init n =
     \<lparr>root_page_id = INVALID_PAGE_ID, pool = Map.empty, disk_next_page_id = n,
      header_record = None, deallocated = []\<rparr>"

subsection \<open>Removal\<close>

definition AdjustRoot :: "int \<Rightarrow> BPlusTree \<Rightarrow> tree_error + (bool \<times> BPlusTree)" where
  "AdjustRoot old_root_node t =
     bindE (pool_FetchPage old_root_node t) (\<lambda>r.
     if IsLeafPage r
     then Inr (True, UpdateRootPageId False (t\<lparr>root_page_id := INVALID_PAGE_ID\<rparr>))
     else if cur_size r = 1
     then
       (let (new_root_id, r1) = Internal_RemoveAndReturnOnlyChild r;
            t1 = pool_write old_root_node r1 t;
            t2 = UpdateRootPageId False (t1\<lparr>root_page_id := new_root_id\<rparr>)
        in bindE (pool_update (root_page_id t2) (SetParentPageId INVALID_PAGE_ID) t2)
             (\<lambda>t3. Inr (True, t3)))
     else Inr (False, t))"

text \<open>\<open>FindSibling\<close>: whether \<open>node\<close> is the leftmost child, the sibling, and the
  transaction and pool after the sibling is fetched.\<close>

definition FindSibling ::
  "tree_params \<Rightarrow> int \<Rightarrow> Transaction option \<Rightarrow> BPlusTree
     \<Rightarrow> tree_error + (bool \<times> int \<times> Transaction option \<times> BPlusTree)" where
  "FindSibling ps node transaction t =
     bindE (pool_FetchPage node t) (\<lambda>n.
     bindE (pool_FetchPage (parent_page_id n) t) (\<lambda>parent.
     let idx = Internal_ValueIndex parent (page_id n);
         sibling_idx = (if idx > 0 then idx - 1 else idx + 1);
         sibling_page_id = ValueAt parent sibling_idx
     in
     bindE (ConcurrentFetchPage ps sibling_page_id DELETE INVALID_PAGE_ID transaction t)
       (\<lambda>(txn1, t1).
     Inr (idx = 0, sibling_page_id, txn1, t1))))"

text \<open>The template parameter \<open>N\<close> of \<open>Redistribute\<close>, \<open>Coalesce\<close> and
  \<open>CoalesceOrRedistribute\<close> is the argument \<open>kind\<close>: it selects the leaf's or the
  internal page's methods.\<close>

definition Redistribute ::
  "IndexPageType \<Rightarrow> int \<Rightarrow> int \<Rightarrow> int \<Rightarrow> BPlusTree \<Rightarrow> tree_error + BPlusTree" where
  "Redistribute kind neighbor_node node index t =
     (if index = 0
      then (if kind = LEAF_PAGE then Leaf_MoveFirstToEndOf neighbor_node node t
            else Internal_MoveFirstToEndOf neighbor_node node t)
      else (if kind = LEAF_PAGE then Leaf_MoveLastToFrontOf neighbor_node node index t
            else Internal_MoveLastToFrontOf neighbor_node node index t))"

definition MoveAllTo ::
  "IndexPageType \<Rightarrow> int \<Rightarrow> int \<Rightarrow> int \<Rightarrow> BPlusTree \<Rightarrow> tree_error + BPlusTree" where
  "MoveAllTo kind node neighbor_node index t =
     (if kind = LEAF_PAGE
      then bindE (pool_FetchPage node t) (\<lambda>n.
           bindE (pool_FetchPage neighbor_node t) (\<lambda>r.
           let (n1, r1) = Leaf_MoveAllTo n r
           in Inr (pool_write node n1 (pool_write neighbor_node r1 t))))
      else Internal_MoveAllTo node neighbor_node index t)"

text \<open>\<open>Coalesce\<close> up to its test of the parent's size: all of \<open>node\<close> moves to
  \<open>neighbor_node\<close>, \<open>node\<close> goes into the deleted page set, and the parent loses the
  slot \<open>index\<close>.\<close>

definition Coalesce_step ::
  "IndexPageType \<Rightarrow> int \<Rightarrow> int \<Rightarrow> int \<Rightarrow> int \<Rightarrow> Transaction option \<Rightarrow> BPlusTree
     \<Rightarrow> tree_error + (Transaction option \<times> BPlusTree)" where
  "Coalesce_step kind neighbor_node node parent index transaction t =
     bindE (MoveAllTo kind node neighbor_node index t) (\<lambda>t1.
     case transaction of
       None \<Rightarrow> Inl NullTransaction
     | Some txn \<Rightarrow>
         bindE (pool_FetchPage node t1) (\<lambda>n.
         bindE (pool_update parent (\<lambda>p. Internal_Remove p index) t1) (\<lambda>t2.
         Inr (Some (AddIntoDeletedPageSet (page_id n) txn), t2))))"

partial_function (option) CoalesceOrRedistribute ::
  "tree_params \<Rightarrow> IndexPageType \<Rightarrow> int \<Rightarrow> Transaction option \<Rightarrow> BPlusTree
     \<Rightarrow> (tree_error + (bool \<times> Transaction option \<times> BPlusTree)) option" where
  "CoalesceOrRedistribute ps kind node transaction t =
     (case pool_FetchPage node t of
        Inl e \<Rightarrow> Some (Inl e)
      | Inr n \<Rightarrow>
          if IsRootPage n
          then
            Some (bindE (AdjustRoot node t) (\<lambda>(delete_root, t1).
                  if delete_root
                  then (case transaction of
                          None \<Rightarrow> Inl NullTransaction
                        | Some txn \<Rightarrow>
                            bindE (pool_FetchPage node t1) (\<lambda>n1.
                            Inr (True, Some (AddIntoDeletedPageSet (page_id n1) txn), t1)))
                  else Inr (False, transaction, t1)))
          else
            (case FindSibling ps node transaction t of
               Inl e \<Rightarrow> Some (Inl e)
             | Inr (node_left, sibling, txn1, t1) \<Rightarrow>
                 (case bindE (pool_FetchPage node t1) (\<lambda>n1.
                       bindE (pool_FetchPage sibling t1) (\<lambda>s1.
                       bindE (pool_FetchPage (parent_page_id n1) t1) (\<lambda>parent.
                       Inr (n1, s1, parent)))) of
                    Inl e \<Rightarrow> Some (Inl e)
                  | Inr (n1, s1, parent) \<Rightarrow>
                      if cur_size n1 + cur_size s1 > max_size n1
                      then
                        Some (bindE (Redistribute kind sibling node
                                       (Internal_ValueIndex parent (page_id n1)) t1)
                                (\<lambda>t2. Inr (False, txn1, t2)))
                      else
                        (let node' = (if node_left then sibling else node);
                             sibling' = (if node_left then node else sibling);
                             np = (if node_left then s1 else n1);
                             remove_idx = Internal_ValueIndex parent (page_id np)
                         in case Coalesce_step kind sibling' node' (parent_page_id n1) remove_idx
                                   txn1 t1 of
                              Inl e \<Rightarrow> Some (Inl e)
                            | Inr (txn2, t2) \<Rightarrow>
                                (case pool_FetchPage (parent_page_id n1) t2 of
                                   Inl e \<Rightarrow> Some (Inl e)
                                 | Inr parent2 \<Rightarrow>
                                     if cur_size parent2 \<le> GetMinSize ps parent2
                                     then
                                       Option.bind
                                         (CoalesceOrRedistribute ps INTERNAL_PAGE
                                            (parent_page_id n1) txn2 t2)
                                         (\<lambda>r. case r of
                                                Inl e \<Rightarrow> Some (Inl e)
                                              | Inr (b, txn3, t3) \<Rightarrow> Some (Inr (True, txn3, t3)))
                                     else Some (Inr (True, txn2, t2)))))))"

definition BPT_Remove ::
  "tree_params \<Rightarrow> int \<Rightarrow> Transaction option \<Rightarrow> BPlusTree
     \<Rightarrow> (tree_error + (Transaction option \<times> BPlusTree)) option" where
  "BPT_Remove ps key transaction t =
     (if IsEmpty t then Some (Inr (transaction, t))
      else
        Option.bind (FindLeafPage ps key False DELETE transaction t)
          (\<lambda>r. case r of
                 Inl e \<Rightarrow> Some (Inl e)
               | Inr (None, txn1, t1) \<Rightarrow> Some (Inl NullPage)
               | Inr (Some delete_page, txn1, t1) \<Rightarrow>
                   (case pool_FetchPage delete_page t1 of
                      Inl e \<Rightarrow> Some (Inl e)
                    | Inr p \<Rightarrow>
                        (let (after_sz, p1) = Leaf_RemoveAndDeleteRecord p key;
                             t2 = pool_write delete_page p1 t1
                         in Option.bind
                              (if after_sz < GetMinSize ps p1
                               then CoalesceOrRedistribute ps LEAF_PAGE delete_page txn1 t2
                               else Some (Inr (False, txn1, t2)))
                              (\<lambda>r. case r of
                                     Inl e \<Rightarrow> Some (Inl e)
                                   | Inr (b, txn2, t3) \<Rightarrow>
                                       Some (bindE (RemovePagesInTransaction txn2
                                                      INVALID_PAGE_ID t3) Inr))))))"

subsection \<open>Index iterator\<close>

text \<open>
  \<open>for (it = Begin(); !it.isEnd(); ++it)\<close> collecting \<open>*it\<close>: the iterator stands at slot
  \<open>index\<close> of the leaf \<open>leaf\<close>; \<open>operator++\<close> moves to the next slot, and past the last
  slot to slot 0 of the next leaf, or to the end when \<open>next_page_id\<close> is
  \<open>INVALID_PAGE_ID\<close>.  \<open>None\<close> is a scan that does not end.
\<close>

partial_function (option) scan_from ::
  "BPlusTree \<Rightarrow> int \<Rightarrow> int \<Rightarrow> (tree_error + (int \<times> int) list) option" where
  "scan_from t leaf index =
     (case pool_FetchPage leaf t of
        Inl e \<Rightarrow> Some (Inl e)
      | Inr p \<Rightarrow>
          (let item = array p index
           in if index + 1 \<ge> cur_size p
              then (if next_page_id p = INVALID_PAGE_ID then Some (Inr [item])
                    else (case pool_FetchPage (next_page_id p) t of
                            Inl e \<Rightarrow> Some (Inl e)
                          | Inr q \<Rightarrow>
                              Option.bind (scan_from t (next_page_id p) 0)
                                (\<lambda>r. Some (bindE r (\<lambda>rest. Inr (item # rest))))))
              else Option.bind (scan_from t leaf (index + 1))
                     (\<lambda>r. Some (bindE r (\<lambda>rest. Inr (item # rest))))))"

text \<open>\<open>Begin()\<close> and the scan of the whole leaf chain.\<close>

definition scan_all :: "tree_params \<Rightarrow> BPlusTree \<Rightarrow> (tree_error + (int \<times> int) list) option" where
  "scan_all ps t =
     Option.bind (FindLeafPage ps 0 True READ None t)
       (\<lambda>r. case r of
              Inl e \<Rightarrow> Some (Inl e)
            | Inr (None, txn1, t1) \<Rightarrow> Some (Inr [])
            | Inr (Some start_leaf, txn1, t1) \<Rightarrow> scan_from t1 start_leaf 0)"

subsection \<open>Notions used in the properties\<close>

text \<open>A transaction, or none, that has no page in its deleted page set.\<close>

definition no_deleted :: "Transaction option \<Rightarrow> bool" where
  "no_deleted transaction =
     (case transaction of None \<Rightarrow> True | Some txn \<Rightarrow> deleted_page_set txn = {})"

text \<open>What a finished descent \<open>y\<close> from \<open>ptr\<close> guarantees when it was started with no
  page to delete: the pool is as before, the page reached is a leaf of the pool, and the
  descent for any other operation and transaction reaches the same leaf.\<close>

definition descent_ok ::
  "tree_params \<Rightarrow> int \<Rightarrow> bool \<Rightarrow> OpType \<Rightarrow> int \<Rightarrow> Transaction option \<Rightarrow> BPlusTree
     \<Rightarrow> tree_error + (int \<times> Transaction option \<times> BPlusTree) \<Rightarrow> bool" where
  "descent_ok ps key leftMost op ptr transaction t y \<longleftrightarrow>
     (no_deleted transaction \<longrightarrow>
        (\<forall>leaf txn1 t1. y = Inr (leaf, txn1, t1) \<longrightarrow>
           t1 = t \<and> no_deleted txn1
         \<and> (\<exists>p. pool t leaf = Some p \<and> IsLeafPage p)
         \<and> (\<forall>op2 txn2. no_deleted txn2 \<longrightarrow>
              (\<exists>txn3. FindLeafPage_loop ps key leftMost op2 ptr txn2 t = Some (Inr (leaf, txn3, t))
                      \<and> no_deleted txn3 \<and> (txn3 = None \<longleftrightarrow> txn2 = None)))))"

text \<open>
  Parameters for pages of \<open>max_size\<close> 4.  The minimum size is 1 for a root leaf, 2 for an
  internal root and \<open>(max_size + 1) / 2\<close> for any other page; a page is safe for an insert
  when \<open>size < max_size\<close> and for a delete when its size is above the minimum of a
  non-root page.
\<close>

definition example_params :: tree_params where
  "example_params =
     \<lparr>leaf_max_size = 4, internal_max_size = 4,
      min_size_of = (\<lambda>kind root mx.
                       if root then (if kind = LEAF_PAGE then 1 else 2) else (mx + 1) div 2),
      is_safe = (\<lambda>op kind root sz mx.
                   if op = INSERT then sz < mx else sz > (mx + 1) div 2)\<rparr>"

text \<open>The tree after the keys 1 to 4 were inserted into \<open>BPlusTree_init n\<close>: one full
  leaf, which is the root.\<close>

definition leaf_1_to_4 :: "int \<Rightarrow> int \<Rightarrow> int \<Rightarrow> int \<Rightarrow> int \<Rightarrow> BPlusTreePage" where
  "leaf_1_to_4 n v1 v2 v3 v4 =
     \<lparr>page_type = LEAF_PAGE, cur_size = 4, max_size = 4, parent_page_id = - 1,
      page_id = n, next_page_id = - 1,
      array = (\<lambda>i. (0, 0))(0 := (1, v1), 1 := (2, v2), 2 := (3, v3), 3 := (4, v4))\<rparr>"

definition tree_1_to_4 :: "int \<Rightarrow> int \<Rightarrow> int \<Rightarrow> int \<Rightarrow> int \<Rightarrow> BPlusTree" where
  "tree_1_to_4 n v1 v2 v3 v4 =
     \<lparr>root_page_id = n, pool = [n \<mapsto> leaf_1_to_4 n v1 v2 v3 v4],
      disk_next_page_id = n + 1, header_record = Some n, deallocated = []\<rparr>"

text \<open>The tree after the keys 1 to 5 were inserted: the internal root \<open>n + 2\<close> over the
  leaves \<open>n\<close> and \<open>n + 1\<close>.  The left leaf keeps the three moved entries in its slots
  beyond \<open>size\<close>.\<close>

definition S1_tree :: "int \<Rightarrow> int \<Rightarrow> int \<Rightarrow> int \<Rightarrow> int \<Rightarrow> int \<Rightarrow> BPlusTree" where
  "S1_tree n v1 v2 v3 v4 v5 =
     \<lparr>root_page_id = n + 2,
      pool =
        [n + 2 \<mapsto>
           \<lparr>page_type = INTERNAL_PAGE, cur_size = 2, max_size = 4, parent_page_id = - 1,
            page_id = n + 2, next_page_id = 0,
            array = (\<lambda>i. (0, 0))(0 := (0, n), 1 := (3, n + 1))\<rparr>,
         n \<mapsto>
           \<lparr>page_type = LEAF_PAGE, cur_size = 2, max_size = 4, parent_page_id = n + 2,
            page_id = n, next_page_id = n + 1,
            array = (\<lambda>i. (0, 0))(0 := (1, v1), 1 := (2, v2), 2 := (3, v3), 3 := (4, v4),
                                   4 := (5, v5))\<rparr>,
         n + 1 \<mapsto>
           \<lparr>page_type = LEAF_PAGE, cur_size = 3, max_size = 4, parent_page_id = n + 2,
            page_id = n + 1, next_page_id = - 1,
            array = (\<lambda>i. (0, 0))(0 := (3, v3), 1 := (4, v4), 2 := (5, v5))\<rparr>],
      disk_next_page_id = n + 3, header_record = Some (n + 2), deallocated = []\<rparr>"

text \<open>The index the specification gives for the first slot moved by a leaf split,
  \<open>ceil ((max_size + 1) / 2)\<close>, to be compared with the index of \<open>Leaf_MoveHalfTo\<close>.\<close>

definition spec_split_index :: "int \<Rightarrow> int" where
  "spec_split_index mx = - ((- (mx + 1)) div 2)"

chapter \<open>Properties\<close>

section \<open>LRU replacer\<close>

lemma LRU_inv_empty: "LRU_inv LRU_empty"
  by (simp add: LRU_inv_def LRU_empty_def)

lemma LRU_inv_Insert: "LRU_inv s \<Longrightarrow> LRU_inv (LRU_Insert v s)"
  by (auto simp: LRU_inv_def LRU_Insert_def Let_def)

lemma LRU_inv_Victim:
  assumes inv: "LRU_inv s" and vic: "LRU_Victim s = Evicted v s'"
  shows "LRU_inv s'"
proof -
  from vic have ne: "used s \<noteq> []"
    and s': "s' = \<lparr>mp = mp s - {last (used s)}, used = butlast (used s)\<rparr>"
    by (auto simp: LRU_Victim_def split: if_splits)
  from ne obtain xs x where sn: "used s = xs @ [x]"
    by (metis append_butlast_last_id)
  with inv s' show ?thesis
    by (auto simp: LRU_inv_def)
qed

lemma LRU_inv_Erase: "LRU_inv s \<Longrightarrow> LRU_inv (snd (LRU_Erase v s))"
  by (auto simp: LRU_inv_def LRU_Erase_def)

lemma LRU_reachable_inv: "LRU_reachable s \<Longrightarrow> LRU_inv s"
  by (induction rule: LRU_reachable.induct)
     (auto intro: LRU_inv_empty LRU_inv_Insert LRU_inv_Victim LRU_inv_Erase)

lemma count_list_distinct:
  "distinct xs \<Longrightarrow> x \<in> set xs \<Longrightarrow> count_list xs x = 1"
  by (induction xs) auto

text \<open>Draining a replacer returns its values from the least recently inserted to the most
  recently inserted one, and leaves it empty.\<close>

lemma LRU_drain_inv:
  "LRU_inv s \<Longrightarrow> LRU_drain s = (rev (used s), LRU_empty)"
proof (induction "used s" arbitrary: s rule: rev_induct)
  case Nil
  then show ?case
    by (subst LRU_drain.simps) (simp add: LRU_inv_def LRU_Victim_def LRU_empty_def)
next
  case (snoc x xs)
  let ?s' = "\<lparr>mp = mp s - {x}, used = xs\<rparr>"
  have sn: "used s = xs @ [x]" using snoc.hyps(2) by simp
  from sn snoc.prems have "mp s \<noteq> {}"
    by (auto simp: LRU_inv_def)
  with sn have vic: "LRU_Victim s = Evicted x ?s'"
    by (simp add: LRU_Victim_def)
  have inv': "LRU_inv ?s'"
    using LRU_inv_Victim[OF snoc.prems vic] .
  have "LRU_drain ?s' = (rev xs, LRU_empty)"
    using snoc.hyps(1)[of ?s'] inv' by simp
  with vic sn show ?case
    by (subst LRU_drain.simps) simp
qed

text \<open>
  Claim C10.  In a replacer built by its operations, inserting a value \<open>v\<close> that is already
  present moves \<open>v\<close> to the front of the recency order and keeps the other values in their
  order, \<open>v\<close> occurs once, the set of values and \<open>Size()\<close> are unchanged, and inserting \<open>v\<close>
  a second time changes nothing.  Calling \<open>Victim\<close> until it returns false then returns
  every present value exactly once and leaves the replacer empty.
\<close>

theorem LRU_Insert_present:
  assumes "LRU_reachable s" and "v \<in> mp s"
  shows "used (LRU_Insert v s) = v # remove1 v (used s)
       \<and> mp (LRU_Insert v s) = mp s
       \<and> count_list (used (LRU_Insert v s)) v = 1
       \<and> LRU_Size (LRU_Insert v s) = LRU_Size s
       \<and> LRU_Insert v (LRU_Insert v s) = LRU_Insert v s
       \<and> (\<forall>x \<in> mp (LRU_Insert v s). count_list (fst (LRU_drain (LRU_Insert v s))) x = 1)
       \<and> set (fst (LRU_drain (LRU_Insert v s))) = mp (LRU_Insert v s)
       \<and> LRU_Size (snd (LRU_drain (LRU_Insert v s))) = 0"
proof -
  have inv: "LRU_inv s" using assms(1) by (rule LRU_reachable_inv)
  have inv': "LRU_inv (LRU_Insert v s)" using inv by (rule LRU_inv_Insert)
  have d: "LRU_drain (LRU_Insert v s) = (rev (used (LRU_Insert v s)), LRU_empty)"
    using inv' by (rule LRU_drain_inv)
  have u: "used (LRU_Insert v s) = v # remove1 v (used s)"
    using assms(2) by (simp add: LRU_Insert_def)
  have m: "mp (LRU_Insert v s) = mp s"
    using assms(2) by (auto simp: LRU_Insert_def)
  have dist: "distinct (used (LRU_Insert v s))"
    and st: "set (used (LRU_Insert v s)) = mp (LRU_Insert v s)"
    using inv' by (simp_all add: LRU_inv_def)
  have c: "\<And>x. x \<in> mp (LRU_Insert v s) \<Longrightarrow> count_list (rev (used (LRU_Insert v s))) x = 1"
    using dist st by (simp add: count_list_distinct)
  have idem: "LRU_Insert v (LRU_Insert v s) = LRU_Insert v s"
    by (simp add: LRU_Insert_def Let_def)
  have cv: "count_list (used (LRU_Insert v s)) v = 1"
    using dist st m assms(2) by (simp add: count_list_distinct)
  show ?thesis
    using u m idem c d st cv by (simp add: LRU_Size_def LRU_empty_def)
qed

theorem LRU_Insert_present_witness:
  "LRU_reachable (LRU_Insert 1 (LRU_Insert (2 :: nat) LRU_empty))
 \<and> 2 \<in> mp (LRU_Insert 1 (LRU_Insert (2 :: nat) LRU_empty))
 \<and> used (LRU_Insert 1 (LRU_Insert (2 :: nat) LRU_empty)) = [1, 2]
 \<and> used (LRU_Insert 2 (LRU_Insert 1 (LRU_Insert (2 :: nat) LRU_empty))) = [2, 1]
 \<and> LRU_Size (LRU_Insert 2 (LRU_Insert 1 (LRU_Insert (2 :: nat) LRU_empty))) = 2
 \<and> count_list (fst (LRU_drain (LRU_Insert 2 (LRU_Insert 1 (LRU_Insert (2 :: nat) LRU_empty))))) 1 = 1
 \<and> count_list (fst (LRU_drain (LRU_Insert 2 (LRU_Insert 1 (LRU_Insert (2 :: nat) LRU_empty))))) 2 = 1
 \<and> LRU_Size (snd (LRU_drain (LRU_Insert 2 (LRU_Insert 1 (LRU_Insert (2 :: nat) LRU_empty))))) = 0"
proof -
  let ?s = "LRU_Insert 1 (LRU_Insert (2 :: nat) LRU_empty)"
  have r: "LRU_reachable ?s"
    by (intro reach_Insert reach_empty)
  have m: "2 \<in> mp ?s"
    by (simp add: LRU_Insert_def LRU_empty_def)
  have u: "used ?s = [1, 2]"
    by (simp add: LRU_Insert_def LRU_empty_def)
  have mp2: "mp (LRU_Insert 2 ?s) = {1, 2}"
    by (auto simp: LRU_Insert_def LRU_empty_def)
  have sz: "LRU_Size ?s = 2"
    by (simp add: LRU_Size_def LRU_Insert_def LRU_empty_def)
  from LRU_Insert_present [OF r m] u mp2 sz r m show ?thesis
    by simp
qed

section \<open>Extendible hash table\<close>

lemma eh_run_0_1_2_4_7:
  "EH_Insert_all std_hash_int [(0, 10), (1, 11), (2, 12), (4, 14), (7, 17)]
     (ExtendibleHash_init 1) = Some eh_after_0_1_2_4_7"
  by code_simp

text \<open>
  Claim C6.  The claim fails on the code.  After \<open>Insert\<close> of the keys 0, 1, 2, 4, 7 into a
  table whose buckets hold one entry, directory entry 1 references the bucket of local
  depth 2 that holds key 7, and \<open>hash(7) & 3 = 3\<close> differs from \<open>1 & 3 = 1\<close>.  Key 1 was
  inserted and never removed, and \<open>Find(1)\<close> returns false.  (When a bucket of local depth
  less than the global depth minus one splits, \<open>Insert\<close> stores the new bucket in the one
  directory entry \<open>indexSt1\<close>; the other entries whose index has the new bit pattern keep
  the old bucket.)
\<close>

theorem EH_Insert_breaks_directory_invariant:
  "EH_Insert_all std_hash_int [(0, 10), (1, 11), (2, 12), (4, 14), (7, 17)]
     (ExtendibleHash_init 1) = Some eh_after_0_1_2_4_7
 \<and> localDepth (bucket_at eh_after_0_1_2_4_7 1) = 2
 \<and> globalDepth eh_after_0_1_2_4_7 = 3
 \<and> entries (bucket_at eh_after_0_1_2_4_7 1) = [Some (7, 17)]
 \<and> std_hash_int 7 AND (push_bit (localDepth (bucket_at eh_after_0_1_2_4_7 1)) 1 - 1) = 3
 \<and> 1 AND (push_bit (localDepth (bucket_at eh_after_0_1_2_4_7 1)) 1 - 1) = (1 :: nat)
 \<and> EH_Find std_hash_int 1 eh_after_0_1_2_4_7 = None"
proof -
  have "localDepth (bucket_at eh_after_0_1_2_4_7 1) = 2"
    and "globalDepth eh_after_0_1_2_4_7 = 3"
    and "entries (bucket_at eh_after_0_1_2_4_7 1) = [Some (7, 17)]"
    by (simp_all add: eh_after_0_1_2_4_7_def bucket_at_def)
  moreover have "std_hash_int 7 AND (push_bit 2 1 - 1) = 3"
    and "1 AND (push_bit 2 1 - 1) = (1 :: nat)"
    by code_simp+
  moreover have "EH_Find std_hash_int 1 eh_after_0_1_2_4_7 = None"
    by code_simp
  ultimately show ?thesis
    using eh_run_0_1_2_4_7 by simp
qed

section \<open>Buffer pool manager\<close>

text \<open>
  Claim C9.  When the page table has no entry for the page id \<open>pid\<close> (\<open>Find\<close> returns false),
  \<open>DeletePage(pid)\<close> returns true, leaves the frames, the page table, the replacer and
  the free list as they are, and makes one call to the disk manager:
  \<open>DeallocatePage(pid)\<close>.
\<close>

theorem BPM_DeletePage_not_resident:
  assumes "EH_Find h pid (page_table b) = None"
  shows "BPM_DeletePage h pid b
           = (True, b\<lparr>disk_manager := disk_manager b @ [DeallocatePage pid]\<rparr>)
       \<and> pages (snd (BPM_DeletePage h pid b)) = pages b
       \<and> page_table (snd (BPM_DeletePage h pid b)) = page_table b
       \<and> replacer (snd (BPM_DeletePage h pid b)) = replacer b
       \<and> free_list (snd (BPM_DeletePage h pid b)) = free_list b
       \<and> disk_manager (snd (BPM_DeletePage h pid b))
           = disk_manager b @ [DeallocatePage pid]"
  using assms by (simp add: BPM_DeletePage_def)

theorem BPM_DeletePage_not_resident_witness:
  "EH_Find std_hash_int 5 (page_table (BufferPoolManager_init 2 50 8)) = None
 \<and> fst (BPM_DeletePage std_hash_int 5 (BufferPoolManager_init 2 50 8)) = True
 \<and> free_list (snd (BPM_DeletePage std_hash_int 5 (BufferPoolManager_init 2 50 8))) = [0, 1]
 \<and> disk_manager (snd (BPM_DeletePage std_hash_int 5 (BufferPoolManager_init 2 50 8)))
     = [DeallocatePage 5]"
proof -
  have f: "EH_Find std_hash_int 5 (page_table (BufferPoolManager_init 2 50 8)) = None"
    by code_simp
  have fl: "free_list (BufferPoolManager_init 2 50 8) = [0, 1]"
    by code_simp
  have dm: "disk_manager (BufferPoolManager_init 2 50 8) = []"
    by (simp add: BufferPoolManager_init_def)
  from BPM_DeletePage_not_resident [OF f] f fl dm show ?thesis
    by simp
qed

section \<open>Lock manager\<close>

lemmas lock_defs =
  LockExclusive_def LockShared_def Unlock_def LockManager_init_def lock_table_at_def
  set_list_def emplace_back_def Let_def erase_at_def LockExclusive_resume_def
  Wait_returns_def request_def Grant_def new_txn_def

text \<open>
  Claim C7.  The record \<open>r\<close> has no queue.  T10 requests an exclusive lock and holds it; T5,
  older than the queue's tail T10, requests one and blocks with its request queued; T20,
  younger than the new tail T5, requests one: the call returns false, T20 is ABORTED and
  the queue is as before (no request of T20).  T5 is still blocked.  Then T10 unlocks
  (while GROWING when the manager is not strict, after it has committed when the manager
  is strict): the call returns true, the queue holds T5's request alone, granted, T5's call
  returns true with \<open>r\<close> in its exclusive lock set, and T5 is GROWING and T20 ABORTED.
\<close>

theorem LockManager_wait_die_scenario:
  assumes "lock_table lm0 r = None"
    and "state T10 = GROWING" and "state T5 = GROWING" and "state T20 = GROWING"
    and "txn_id T5 < txn_id T10" and "txn_id T5 < txn_id T20"
    and "txn_id T10 \<noteq> txn_id T20"
  shows
    "(let (o1, T10a, lm1) = LockExclusive T10 r lm0;
          (o2, T5a, lm2) = LockExclusive T5 r lm1;
          (o3, T20a, lm3) = LockExclusive T20 r lm2;
          T10b = (if strict_2PL lm0 then T10a\<lparr>state := COMMITTED\<rparr> else T10a)
      in o1 = Returned True \<and> r \<in> exclusive_lock_set T10a
       \<and> locks (lock_table_at lm1 r) = [request (txn_id T10) EXCLUSIVE True]
       \<and> o2 = Blocked \<and> T5a = T5
       \<and> locks (lock_table_at lm2 r)
           = [request (txn_id T10) EXCLUSIVE True, request (txn_id T5) EXCLUSIVE False]
       \<and> o3 = Returned False \<and> state T20a = ABORTED \<and> lm3 = lm2
       \<and> find_if_txn (txn_id T20) (locks (lock_table_at lm3 r)) = None
       \<and> LockExclusive_resume T5a r lm3 = (Blocked, T5a)
       \<and> (case Unlock T10b r lm3 of
             Inl e \<Rightarrow> False
           | Inr (b, T10c, lm4) \<Rightarrow>
               b \<and> locks (lock_table_at lm4 r) = [request (txn_id T5) EXCLUSIVE True]
             \<and> (case LockExclusive_resume T5a r lm4 of
                   (o5, T5b) \<Rightarrow> o5 = Returned True \<and> r \<in> exclusive_lock_set T5b
                                  \<and> state T5b = GROWING \<and> state T20a = ABORTED)))"
  using assms
  by (simp add: lock_defs)

theorem LockManager_wait_die_scenario_witness:
  "(let r = 7; lm0 = LockManager_init False; T10 = new_txn 10; T5 = new_txn 5; T20 = new_txn 20;
        (o1, T10a, lm1) = LockExclusive T10 r lm0;
        (o2, T5a, lm2) = LockExclusive T5 r lm1;
        (o3, T20a, lm3) = LockExclusive T20 r lm2
    in lock_table lm0 r = None \<and> state T10 = GROWING \<and> state T5 = GROWING \<and> state T20 = GROWING
     \<and> txn_id T5 < txn_id T10 \<and> txn_id T5 < txn_id T20 \<and> txn_id T10 \<noteq> txn_id T20
     \<and> o2 = Blocked \<and> o3 = Returned False \<and> state T20a = ABORTED
     \<and> (case Unlock T10a r lm3 of
             Inl e \<Rightarrow> False
           | Inr (b, T10c, lm4) \<Rightarrow>
               b \<and> locks (lock_table_at lm4 r) = [request 5 EXCLUSIVE True]
             \<and> (case LockExclusive_resume T5a r lm4 of
                   (o5, T5b) \<Rightarrow> o5 = Returned True \<and> state T5b = GROWING)))"
  using LockManager_wait_die_scenario
          [of "LockManager_init False" 7 "new_txn 10" "new_txn 5" "new_txn 20"]
  by (simp add: lock_defs)

text \<open>Under strict two-phase locking an \<open>Unlock\<close> by a transaction that is still GROWING
  aborts that transaction, returns false and grants nothing.\<close>

lemma Unlock_strict_while_growing:
  "strict_2PL lm \<Longrightarrow> state txn = GROWING \<Longrightarrow>
   Unlock txn r lm = Inr (False, txn\<lparr>state := ABORTED\<rparr>, lm)"
  by (simp add: Unlock_def)

lemma grant_next_shared_run:
  "\<forall>w \<in> set ws. lock_type w = SHARED \<and> \<not> granted w \<Longrightarrow>
   rest = [] \<or> granted (hd rest) \<Longrightarrow>
   grant_next (ws @ rest) hu = (map Grant ws @ rest, hu)"
proof (induction ws)
  case Nil
  then show ?case by (cases rest) auto
next
  case (Cons w ws)
  then show ?case by simp
qed

lemma grant_next_length: "length (fst (grant_next q hu)) = length q"
  by (induction q) (auto split: prod.splits)

lemma grant_next_shared_prefix:
  "\<forall>w \<in> set ws. lock_type w = SHARED \<and> \<not> granted w \<Longrightarrow>
   take (length ws) (fst (grant_next (ws @ rest) hu)) = map Grant ws"
  by (induction ws) (auto split: prod.splits)

text \<open>
  Claim C8, as the code has it.  In \<open>Unlock\<close>, when the caller's request is removed and the
  queue is not empty, the new queue and flag are \<open>grant_next\<close> of the old ones, and
  \<open>grant_next\<close> walks the queue from its front: a granted front entry ends the walk and
  nothing is granted; an ungranted EXCLUSIVE front entry is granted and ends the walk; an
  ungranted UPGRADING front entry is granted, becomes EXCLUSIVE, clears \<open>has_upgrated\<close>
  and ends the walk; an ungranted SHARED front entry is granted, and so is every ungranted
  SHARED entry of the run that follows it, whatever comes after the run, and the queue keeps
  its length; when the run reaches the end of the queue or an already-granted entry,
  nothing else changes.  Nothing is said here about an ungranted entry that is not SHARED
  and follows the run.
\<close>

theorem Unlock_grant_next:
  "(granted tx_lock \<longrightarrow> grant_next (tx_lock # rest) hu = (tx_lock # rest, hu))
 \<and> (\<not> granted tx_lock \<and> lock_type tx_lock = EXCLUSIVE \<longrightarrow>
      grant_next (tx_lock # rest) hu = (Grant tx_lock # rest, hu))
 \<and> (\<not> granted tx_lock \<and> lock_type tx_lock = UPGRADING \<longrightarrow>
      grant_next (tx_lock # rest) hu = ((Grant tx_lock)\<lparr>lock_type := EXCLUSIVE\<rparr> # rest, False))
 \<and> ((\<forall>w \<in> set (tx_lock # ws). lock_type w = SHARED \<and> \<not> granted w) \<longrightarrow>
      take (length (tx_lock # ws)) (fst (grant_next (tx_lock # ws @ rest) hu))
        = map Grant (tx_lock # ws)
    \<and> length (fst (grant_next (tx_lock # ws @ rest) hu)) = length (tx_lock # ws @ rest)
    \<and> (rest = [] \<or> granted (hd rest) \<longrightarrow>
         grant_next (tx_lock # ws @ rest) hu = (map Grant (tx_lock # ws) @ rest, hu)))
 \<and> (\<not> (strict_2PL lm \<and> state txn \<noteq> COMMITTED \<and> state txn \<noteq> ABORTED)
      \<and> find_if_txn (txn_id txn) (locks (lock_table_at lm rid)) = Some i
      \<and> erase_at i (locks (lock_table_at lm rid)) \<noteq> [] \<longrightarrow>
      (case Unlock txn rid lm of
         Inl e \<Rightarrow> False
       | Inr (b, txn', lm') \<Rightarrow>
           b \<and> (locks (lock_table_at lm' rid), has_upgrated (lock_table_at lm' rid))
               = grant_next (erase_at i (locks (lock_table_at lm rid)))
                   (has_upgrated (lock_table_at lm rid))))"
proof -
  have front: "granted tx_lock \<longrightarrow> grant_next (tx_lock # rest) hu = (tx_lock # rest, hu)"
    and excl: "\<not> granted tx_lock \<and> lock_type tx_lock = EXCLUSIVE \<longrightarrow>
      grant_next (tx_lock # rest) hu = (Grant tx_lock # rest, hu)"
    and upgr: "\<not> granted tx_lock \<and> lock_type tx_lock = UPGRADING \<longrightarrow>
      grant_next (tx_lock # rest) hu = ((Grant tx_lock)\<lparr>lock_type := EXCLUSIVE\<rparr> # rest, False)"
    by simp_all
  have shared: "(\<forall>w \<in> set (tx_lock # ws). lock_type w = SHARED \<and> \<not> granted w) \<longrightarrow>
      take (length (tx_lock # ws)) (fst (grant_next (tx_lock # ws @ rest) hu))
        = map Grant (tx_lock # ws)
    \<and> length (fst (grant_next (tx_lock # ws @ rest) hu)) = length (tx_lock # ws @ rest)
    \<and> (rest = [] \<or> granted (hd rest) \<longrightarrow>
         grant_next (tx_lock # ws @ rest) hu = (map Grant (tx_lock # ws) @ rest, hu))"
  proof (intro impI conjI)
    assume sh: "\<forall>w \<in> set (tx_lock # ws). lock_type w = SHARED \<and> \<not> granted w"
    from grant_next_shared_prefix [OF sh, of rest hu]
    show "take (length (tx_lock # ws)) (fst (grant_next (tx_lock # ws @ rest) hu))
            = map Grant (tx_lock # ws)"
      by simp
    from grant_next_length [of "tx_lock # ws @ rest" hu]
    show "length (fst (grant_next (tx_lock # ws @ rest) hu)) = length (tx_lock # ws @ rest)" .
    assume "rest = [] \<or> granted (hd rest)"
    from grant_next_shared_run [OF sh this, of hu]
    show "grant_next (tx_lock # ws @ rest) hu = (map Grant (tx_lock # ws) @ rest, hu)"
      by simp
  qed
  have unl: "\<not> (strict_2PL lm \<and> state txn \<noteq> COMMITTED \<and> state txn \<noteq> ABORTED)
      \<and> find_if_txn (txn_id txn) (locks (lock_table_at lm rid)) = Some i
      \<and> erase_at i (locks (lock_table_at lm rid)) \<noteq> [] \<longrightarrow>
      (case Unlock txn rid lm of
         Inl e \<Rightarrow> False
       | Inr (b, txn', lm') \<Rightarrow>
           b \<and> (locks (lock_table_at lm' rid), has_upgrated (lock_table_at lm' rid))
               = grant_next (erase_at i (locks (lock_table_at lm rid)))
                   (has_upgrated (lock_table_at lm rid)))"
    by (auto simp: Unlock_def Let_def set_list_def lock_table_at_def split: prod.splits)
  from front excl upgr shared unl show ?thesis
    by blast
qed

text \<open>The theorem at five queues and one \<open>Unlock\<close>: a granted front entry; a waiting
  EXCLUSIVE front entry; a waiting UPGRADING front entry; two waiting SHARED entries
  before a granted one; a waiting SHARED entry before a waiting EXCLUSIVE one, the queue
  that is left when T10 held the exclusive lock, T5 asked for a shared and T3 for an
  exclusive lock, and T10 unlocks; and T10 unlocking before the waiting T5.\<close>

theorem Unlock_grant_next_witness:
  "grant_next [request 7 SHARED True, request 3 EXCLUSIVE False] False
     = ([request 7 SHARED True, request 3 EXCLUSIVE False], False)
 \<and> grant_next [request 3 EXCLUSIVE False, request 2 SHARED False] False
     = ([request 3 EXCLUSIVE True, request 2 SHARED False], False)
 \<and> grant_next [request 3 UPGRADING False, request 2 SHARED False] True
     = ([request 3 EXCLUSIVE True, request 2 SHARED False], False)
 \<and> grant_next ([request 4 SHARED False, request 3 SHARED False] @ [request 9 SHARED True]) False
     = ([request 4 SHARED True, request 3 SHARED True, request 9 SHARED True], False)
 \<and> take 1 (fst (grant_next [request 5 SHARED False, request 3 EXCLUSIVE False] False))
     = [request 5 SHARED True]
 \<and> length (fst (grant_next [request 5 SHARED False, request 3 EXCLUSIVE False] False)) = 2
 \<and> (case Unlock (new_txn 10) 7
            (set_list (LockManager_init False) 7
               \<lparr>locks = [request 10 EXCLUSIVE True, request 5 EXCLUSIVE False],
                has_upgrated = False\<rparr>) of
       Inl e \<Rightarrow> False
     | Inr (b, txn', lm') \<Rightarrow> b \<and> locks (lock_table_at lm' 7) = [request 5 EXCLUSIVE True])"
proof -
  let ?lm = "set_list (LockManager_init False) 7
               \<lparr>locks = [request 10 EXCLUSIVE True, request 5 EXCLUSIVE False],
                has_upgrated = False\<rparr>"
  note a = Unlock_grant_next
    [of "request 7 SHARED True" "[request 3 EXCLUSIVE False]" False "[]" ?lm "new_txn 10" 7 0]
  note b = Unlock_grant_next
    [of "request 3 EXCLUSIVE False" "[request 2 SHARED False]" False "[]" ?lm "new_txn 10" 7 0]
  note c = Unlock_grant_next
    [of "request 3 UPGRADING False" "[request 2 SHARED False]" True "[]" ?lm "new_txn 10" 7 0]
  note d = Unlock_grant_next
    [of "request 4 SHARED False" "[request 9 SHARED True]" False "[request 3 SHARED False]"
        ?lm "new_txn 10" 7 0]
  note e = Unlock_grant_next
    [of "request 5 SHARED False" "[request 3 EXCLUSIVE False]" False "[]" ?lm "new_txn 10" 7 0]
  from a b c d e show ?thesis
    by (simp add: lock_defs)
qed

text \<open>
  What the walk does with a waiter that is not SHARED and follows SHARED waiters it has
  just granted: after \<open>continue\<close> the next round grants that waiter as well.  T10 holds the
  exclusive lock on record 0, T5 asks for a shared lock and waits, T3 asks for an exclusive
  lock and waits; when T10 unlocks, T5 holds a shared and T3 an exclusive lock on the
  record.
\<close>

lemma Unlock_grants_exclusive_after_shared:
  "(case LockExclusive (new_txn 10) 0 (LockManager_init False) of (o1, T10, lm1) \<Rightarrow>
    case LockShared (new_txn 5) 0 lm1 of (o2, T5, lm2) \<Rightarrow>
    case LockExclusive (new_txn 3) 0 lm2 of (o3, T3, lm3) \<Rightarrow>
      o1 = Returned True \<and> o2 = Blocked \<and> o3 = Blocked
    \<and> locks (lock_table_at lm3 0)
        = [request 10 EXCLUSIVE True, request 5 SHARED False, request 3 EXCLUSIVE False]
    \<and> (case Unlock T10 0 lm3 of
          Inl e \<Rightarrow> False
        | Inr (b, T10', lm4) \<Rightarrow>
            b \<and> locks (lock_table_at lm4 0)
                  = [request 5 SHARED True, request 3 EXCLUSIVE True]))"
  by (simp add: lock_defs)

text \<open>
  The claim as worded fails on the code.  Transactions 5 and 7 hold shared locks on record
  0 and transaction 3 waits for an exclusive lock.  When transaction 5 unlocks, the queue
  is \<open>queue_7S_3X\<close>: the code stops at the granted request of transaction 7 and leaves
  transaction 3 waiting; the walk of the claim skips the granted request and grants
  transaction 3 its exclusive lock.
\<close>

theorem Unlock_grant_next_counterexample:
  "(case LockShared (new_txn 5) 0 (LockManager_init False) of (o1, T5, lm1) \<Rightarrow>
    case LockShared (new_txn 7) 0 lm1 of (o2, T7, lm2) \<Rightarrow>
    case LockExclusive (new_txn 3) 0 lm2 of (o3, T3, lm3) \<Rightarrow>
      o1 = Returned True \<and> o2 = Returned True \<and> o3 = Blocked
    \<and> locks (lock_table_at lm3 0)
        = [request 5 SHARED True, request 7 SHARED True, request 3 EXCLUSIVE False]
    \<and> (case Unlock T5 0 lm3 of
          Inl e \<Rightarrow> False
        | Inr (b, T5', lm4) \<Rightarrow> locks (lock_table_at lm4 0) = queue_7S_3X))
   \<and> fst (grant_next queue_7S_3X False) = queue_7S_3X
   \<and> fst (spec_grant_next queue_7S_3X False) = [request 7 SHARED True, request 3 EXCLUSIVE True]
   \<and> grant_next queue_7S_3X False \<noteq> spec_grant_next queue_7S_3X False"
  by (simp add: lock_defs queue_7S_3X_def)

section \<open>B+ tree\<close>

lemmas tree_defs =
  BPT_Insert_def InsertIntoLeaf_def FindLeafPage_def FindLeafPage_loop.simps ConcurrentFetchPage_def
  RemovePagesInTransaction_def release_all_def StartNewTree_def Split_leaf_def Split_internal_def
  InsertIntoParent.simps InsertIntoParent_root_def InsertIntoParent_insert_def
  pool_FetchPage_def pool_write_def pool_NewPage_def pool_DeletePage_def pool_update_def
  UpdateRootPageId_def IsEmpty_def AddIntoPageSet_def AddIntoDeletedPageSet_def SetParentPageId_def
  bindE_def zero_page_def INVALID_PAGE_ID_def BPlusTree_init_def
  Leaf_Init_def Leaf_KeyIndex_def Leaf_Insert_def Leaf_CopyHalfFrom_def Leaf_MoveHalfTo_def
  Leaf_Lookup_def Internal_Init_def Internal_ValueIndex_def Internal_Lookup_def
  Internal_PopulateNewRoot_def Internal_InsertNodeAfter_def GetValue_def
  IsLeafPage_def IsRootPage_def KeyAt_def ValueAt_def SetKeyAt_def IncreaseSize_def
  shift_up_def shift_down_def copy_items_def memmove_def items_def
  KeyIndex_loop.simps Lookup_loop.simps Let_def upto.simps

lemmas remove_defs =
  BPT_Remove_def CoalesceOrRedistribute.simps Coalesce_step_def MoveAllTo_def Redistribute_def
  FindSibling_def AdjustRoot_def Leaf_RemoveAndDeleteRecord_def Leaf_CopyAllFrom_def
  Leaf_MoveAllTo_def Internal_Remove_def Internal_RemoveAndReturnOnlyChild_def GetMinSize_def
  IsSafe_def scan_all_def scan_from.simps

subsection \<open>The scenario of five sorted inserts\<close>

lemma tree_1_to_4_run:
  assumes "leaf_max_size ps = 4" and "internal_max_size ps = 4"
    and "0 < n"
    and "page_set txn = []" and "deleted_page_set txn = {}"
  shows "BPT_Insert_all ps [(1, v1), (2, v2), (3, v3), (4, v4)] (Some txn) (BPlusTree_init n)
    = Some (Inr ([True, True, True, True], Some txn, tree_1_to_4 n v1 v2 v3 v4))"
  using assms
  by (simp add: tree_defs tree_1_to_4_def leaf_1_to_4_def add.commute)

lemma S1_run: 
  assumes ps: "leaf_max_size ps = 4" "internal_max_size ps = 4"
    and n: "0 < n"
    and txn: "page_set txn = []" "deleted_page_set txn = {}"
  shows "BPT_Insert_all ps [(1, v1), (2, v2), (3, v3), (4, v4), (5, v5)] (Some txn) (BPlusTree_init n)
    = Some (Inr ([True, True, True, True, True], Some txn, S1_tree n v1 v2 v3 v4 v5))"
  using assms
  by (simp add: tree_defs S1_tree_def add.commute)

subsection \<open>Insert\<close>

text \<open>
  \<^bold>\<open>C1.\<close>  From the empty tree with leaf and internal \<open>max_size\<close> 4 the keys
  1, 2, 3, 4, 5 are inserted in this order, each with some value, under a transaction that
  holds no page: every insert returns true, and afterwards the root is an internal page of
  two children with separator key 3, the left leaf holds exactly the keys 1 and 2, the right
  leaf exactly 3, 4 and 5, the left leaf is linked to the right one, which ends the chain,
  and \<open>GetValue\<close> of key 4 finds its value (with or without a transaction) and changes
  nothing.  The first page id \<open>n\<close> handed out is positive (page 0 is the header page).
\<close>

theorem BPT_Insert_sorted_split:
  assumes "leaf_max_size ps = 4" and "internal_max_size ps = 4"
    and "0 < n"
    and "page_set txn = []" and "deleted_page_set txn = {}"
  shows
    "(case BPT_Insert_all ps [(1, v1), (2, v2), (3, v3), (4, v4), (5, v5)] (Some txn)
             (BPlusTree_init n) of
        Some (Inr (inserted, txn1, t)) \<Rightarrow>
          inserted = [True, True, True, True, True]
        \<and> t = S1_tree n v1 v2 v3 v4 v5
        \<and> (case pool t (root_page_id t) of
              None \<Rightarrow> False
            | Some root \<Rightarrow>
                page_type root = INTERNAL_PAGE \<and> IsRootPage root \<and> cur_size root = 2
              \<and> KeyAt root 1 = 3
              \<and> (case pool t (ValueAt root 0) of
                    None \<Rightarrow> False
                  | Some left \<Rightarrow>
                      IsLeafPage left \<and> items left = [(1, v1), (2, v2)]
                    \<and> next_page_id left = ValueAt root 1
                    \<and> parent_page_id left = root_page_id t)
              \<and> (case pool t (ValueAt root 1) of
                    None \<Rightarrow> False
                  | Some right \<Rightarrow>
                      IsLeafPage right \<and> items right = [(3, v3), (4, v4), (5, v5)]
                    \<and> next_page_id right = INVALID_PAGE_ID
                    \<and> parent_page_id right = root_page_id t))
        \<and> (case GetValue ps 4 None t of
              Some (Inr (found, txn2, t2)) \<Rightarrow> found = Some v4 \<and> t2 = t
            | _ \<Rightarrow> False)
        \<and> (case GetValue ps 4 txn1 t of
              Some (Inr (found, txn2, t2)) \<Rightarrow> found = Some v4 \<and> t2 = t
            | _ \<Rightarrow> False)
      | _ \<Rightarrow> False)"
proof -
  have run: "BPT_Insert_all ps [(1, v1), (2, v2), (3, v3), (4, v4), (5, v5)] (Some txn)
               (BPlusTree_init n)
             = Some (Inr ([True, True, True, True, True], Some txn, S1_tree n v1 v2 v3 v4 v5))"
    using assms by (rule S1_run)
  have shape: "(case pool (S1_tree n v1 v2 v3 v4 v5) (root_page_id (S1_tree n v1 v2 v3 v4 v5)) of
              None \<Rightarrow> False
            | Some root \<Rightarrow>
                page_type root = INTERNAL_PAGE \<and> IsRootPage root \<and> cur_size root = 2
              \<and> KeyAt root 1 = 3
              \<and> (case pool (S1_tree n v1 v2 v3 v4 v5) (ValueAt root 0) of
                    None \<Rightarrow> False
                  | Some left \<Rightarrow>
                      IsLeafPage left \<and> items left = [(1, v1), (2, v2)]
                    \<and> next_page_id left = ValueAt root 1
                    \<and> parent_page_id left = root_page_id (S1_tree n v1 v2 v3 v4 v5))
              \<and> (case pool (S1_tree n v1 v2 v3 v4 v5) (ValueAt root 1) of
                    None \<Rightarrow> False
                  | Some right \<Rightarrow>
                      IsLeafPage right \<and> items right = [(3, v3), (4, v4), (5, v5)]
                    \<and> next_page_id right = INVALID_PAGE_ID
                    \<and> parent_page_id right = root_page_id (S1_tree n v1 v2 v3 v4 v5)))"
    by (simp add: S1_tree_def IsRootPage_def IsLeafPage_def KeyAt_def ValueAt_def items_def
        INVALID_PAGE_ID_def upto.simps)
  have get1: "GetValue ps 4 None (S1_tree n v1 v2 v3 v4 v5)
              = Some (Inr (Some v4, None, S1_tree n v1 v2 v3 v4 v5))"
    using assms by (simp add: tree_defs S1_tree_def)
  have get2: "GetValue ps 4 (Some txn) (S1_tree n v1 v2 v3 v4 v5)
              = Some (Inr (Some v4, Some txn, S1_tree n v1 v2 v3 v4 v5))"
    using assms by (simp add: tree_defs S1_tree_def)
  show ?thesis
    unfolding run using shape get1 get2 by simp
qed

theorem BPT_Insert_sorted_split_witness:
  "leaf_max_size example_params = 4 \<and> internal_max_size example_params = 4
   \<and> (0 :: int) < 1
   \<and> page_set (new_txn 0) = [] \<and> deleted_page_set (new_txn 0) = {}
   \<and> (case BPT_Insert_all example_params [(1, 10), (2, 20), (3, 30), (4, 40), (5, 50)]
              (Some (new_txn 0)) (BPlusTree_init 1) of
        Some (Inr (inserted, txn1, t)) \<Rightarrow>
          inserted = [True, True, True, True, True]
        \<and> t = S1_tree 1 10 20 30 40 50
        \<and> (case pool t (root_page_id t) of
              None \<Rightarrow> False
            | Some root \<Rightarrow>
                page_type root = INTERNAL_PAGE \<and> IsRootPage root \<and> cur_size root = 2
              \<and> KeyAt root 1 = 3
              \<and> (case pool t (ValueAt root 0) of
                    None \<Rightarrow> False
                  | Some left \<Rightarrow>
                      IsLeafPage left \<and> items left = [(1, 10), (2, 20)]
                    \<and> next_page_id left = ValueAt root 1
                    \<and> parent_page_id left = root_page_id t)
              \<and> (case pool t (ValueAt root 1) of
                    None \<Rightarrow> False
                  | Some right \<Rightarrow>
                      IsLeafPage right \<and> items right = [(3, 30), (4, 40), (5, 50)]
                    \<and> next_page_id right = INVALID_PAGE_ID
                    \<and> parent_page_id right = root_page_id t))
        \<and> (case GetValue example_params 4 None t of
              Some (Inr (found, txn2, t2)) \<Rightarrow> found = Some 40 \<and> t2 = t
            | _ \<Rightarrow> False)
        \<and> (case GetValue example_params 4 txn1 t of
              Some (Inr (found, txn2, t2)) \<Rightarrow> found = Some 40 \<and> t2 = t
            | _ \<Rightarrow> False)
      | _ \<Rightarrow> False)"
  using BPT_Insert_sorted_split [where ps = example_params and n = 1 and txn = "new_txn 0"
      and ?v1.0 = 10 and ?v2.0 = 20 and ?v3.0 = 30 and ?v4.0 = 40 and ?v5.0 = 50]
  by (simp add: example_params_def new_txn_def)

subsection \<open>Leaf split\<close>

lemma foldl_copy_upto:
  "foldl (\<lambda>a i. a(off + i := src i)) a [lo .. hi] j
     = (if off + lo \<le> j \<and> j \<le> off + hi then src (j - off) else a j)"
proof (induction lo hi arbitrary: a rule: upto.induct)
  case (1 i j')
  show ?case
  proof (cases "i \<le> j'")
    case True
    then have "[i .. j'] = i # [i + 1 .. j']" by (simp add: upto.simps)
    with 1[OF True] True show ?thesis by auto
  next
    case False
    then have "[i .. j'] = []" by (simp add: upto.simps)
    with False show ?thesis by auto
  qed
qed

lemma copy_items_apply:
  "copy_items a off src n j = (if off \<le> j \<and> j < off + n then src (j - off) else a j)"
  unfolding copy_items_def by (subst foldl_copy_upto) auto

lemma map_upto_shift:
  "map f [k .. m] = map (\<lambda>j. f (k + j)) [0 .. m - k]"
  by (rule nth_equalityI) (auto simp: nth_upto)

lemma drop_upto_0: "0 \<le> k \<Longrightarrow> drop (nat k) [0 .. m] = [k .. m]"
  by (rule nth_equalityI) (auto simp: nth_upto)

lemma take_upto_0: "0 \<le> k \<Longrightarrow> k \<le> m + 1 \<Longrightarrow> take (nat k) [0 .. m] = [0 .. k - 1]"
  by (rule nth_equalityI) (auto simp: nth_upto)

lemma items_drop:
  assumes "0 \<le> k"
  shows "drop (nat k) (items p) = map (\<lambda>j. array p (k + j)) [0 .. cur_size p - 1 - k]"
  unfolding items_def drop_map drop_upto_0[OF assms] by (rule map_upto_shift)

lemma items_take:
  assumes "0 \<le> k" "k \<le> cur_size p"
  shows "take (nat k) (items p) = map (array p) [0 .. k - 1]"
  unfolding items_def take_map using take_upto_0[of k "cur_size p - 1"] assms by simp

lemma Leaf_Insert_size:
  "cur_size (Leaf_Insert p key val) = cur_size p + 1"
  "max_size (Leaf_Insert p key val) = max_size p"
  "next_page_id (Leaf_Insert p key val) = next_page_id p"
  "parent_page_id (Leaf_Insert p key val) = parent_page_id p"
  "page_id (Leaf_Insert p key val) = page_id p"
  "page_type (Leaf_Insert p key val) = page_type p"
  by (simp_all add: Leaf_Insert_def IncreaseSize_def Let_def)

lemma Leaf_MoveHalfTo_items:
  assumes sz: "cur_size this = max_size this + 1" and mx: "0 \<le> max_size this"
    and r0: "cur_size recipient = 0"
  shows "items (snd (Leaf_MoveHalfTo this recipient))
           = drop (nat ((max_size this + 1) div 2)) (items this)"
    and "items (fst (Leaf_MoveHalfTo this recipient))
           = take (nat ((max_size this + 1) div 2)) (items this)"
    and "next_page_id (fst (Leaf_MoveHalfTo this recipient)) = page_id recipient"
    and "next_page_id (snd (Leaf_MoveHalfTo this recipient)) = next_page_id this"
    and "KeyAt (snd (Leaf_MoveHalfTo this recipient)) 0
           = fst (array this ((max_size this + 1) div 2))"
    and "cur_size (snd (Leaf_MoveHalfTo this recipient)) = max_size this + 1 - (max_size this + 1) div 2"
    and "cur_size (fst (Leaf_MoveHalfTo this recipient)) = (max_size this + 1) div 2"
proof -
  let ?k = "(max_size this + 1) div 2"
  have k: "0 \<le> ?k" "?k \<le> cur_size this" "?k < max_size this + 1"
    using sz mx by auto
  show "items (snd (Leaf_MoveHalfTo this recipient)) = drop (nat ?k) (items this)"
    unfolding items_drop[OF k(1)]
    using r0 sz
    by (auto simp: Leaf_MoveHalfTo_def Leaf_CopyHalfFrom_def Let_def items_def copy_items_apply)
  show "items (fst (Leaf_MoveHalfTo this recipient)) = take (nat ?k) (items this)"
    unfolding items_take[OF k(1,2)]
    by (simp add: Leaf_MoveHalfTo_def Leaf_CopyHalfFrom_def Let_def items_def)
  show "next_page_id (fst (Leaf_MoveHalfTo this recipient)) = page_id recipient"
    "next_page_id (snd (Leaf_MoveHalfTo this recipient)) = next_page_id this"
    "cur_size (snd (Leaf_MoveHalfTo this recipient)) = max_size this + 1 - ?k"
    "cur_size (fst (Leaf_MoveHalfTo this recipient)) = ?k"
    by (simp_all add: Leaf_MoveHalfTo_def Leaf_CopyHalfFrom_def Let_def)
  show "KeyAt (snd (Leaf_MoveHalfTo this recipient)) 0 = fst (array this ?k)"
    using r0 k
    by (simp add: Leaf_MoveHalfTo_def Leaf_CopyHalfFrom_def Let_def KeyAt_def copy_items_apply)
qed


text \<open>
  \<^bold>\<open>C2\<close> (amended).  When the descent of an insert ends at a leaf that does not hold the key
  and is full (\<open>size = max_size\<close>), the entry is put into the leaf, whose size then exceeds
  \<open>max_size\<close>, and the leaf is split: \<open>Split\<close> allocates a new page, moves exactly the slots
  from index \<open>floor ((max_size + 1) / 2)\<close> onward into it and leaves the slots before that
  index in the old page; the new page is a leaf with the parent of the old one; the old page
  is linked to the new page and the new page to the old page's former successor; and
  \<open>InsertIntoParent\<close> is called with the old page, the new page's first key as the split
  key, and the new page.
\<close>

theorem InsertIntoLeaf_split:
  assumes "FindLeafPage ps key False INSERT (Some txn) t = Some (Inr (Some leaf, Some txn1, t1))"
    and "pool t1 leaf = Some p"
    and "Leaf_Lookup p key = None"
    and "cur_size p = max_size p" and "0 \<le> max_size p"
    and "leaf \<noteq> disk_next_page_id t1"
  shows
    "(case Split_leaf ps leaf (Some txn1) (pool_write leaf (Leaf_Insert p key val) t1) of
        Inl e \<Rightarrow> False
      | Inr (new_id, txn2, t3) \<Rightarrow>
          new_id = disk_next_page_id t1
        \<and> txn2 = Some (AddIntoPageSet new_id txn1)
        \<and> (case pool t3 leaf of
              None \<Rightarrow> False
            | Some old \<Rightarrow>
                (case pool t3 new_id of
                   None \<Rightarrow> False
                 | Some new \<Rightarrow>
                     items new = drop (nat ((max_size p + 1) div 2)) (items (Leaf_Insert p key val))
                   \<and> items old = take (nat ((max_size p + 1) div 2)) (items (Leaf_Insert p key val))
                   \<and> IsLeafPage new \<and> page_id new = new_id
                   \<and> parent_page_id new = parent_page_id p
                   \<and> next_page_id old = new_id
                   \<and> next_page_id new = next_page_id p
                   \<and> KeyAt new 0 = fst (items (Leaf_Insert p key val) ! nat ((max_size p + 1) div 2))
                   \<and> InsertIntoLeaf ps key val (Some txn) t
                       = Option.bind (InsertIntoParent ps leaf (KeyAt new 0) new_id txn2 t3)
                           (\<lambda>r. case r of
                                  Inl e \<Rightarrow> Some (Inl e)
                                | Inr (txn3, t4) \<Rightarrow> Some (release_all True txn3 t4)))))"
proof -
  let ?p1 = "Leaf_Insert p key val"
  let ?t2 = "pool_write leaf ?p1 t1"
  let ?n = "disk_next_page_id t1"
  let ?r = "Leaf_Init ps ?n (parent_page_id ?p1) zero_page"
  let ?k = "(max_size p + 1) div 2"
  have sz: "cur_size ?p1 = max_size ?p1 + 1" and mx: "0 \<le> max_size ?p1"
    using assms(4,5) by (simp_all add: Leaf_Insert_size)
  have r0: "cur_size ?r = 0" by (simp add: Leaf_Init_def)
  note mh = Leaf_MoveHalfTo_items[OF sz mx r0, unfolded Leaf_Insert_size]
  let ?old = "fst (Leaf_MoveHalfTo ?p1 ?r)"
  let ?new = "snd (Leaf_MoveHalfTo ?p1 ?r)"
  let ?t3 = "pool_write leaf ?old (pool_write ?n ?new
               (pool_write ?n ?r (snd (pool_NewPage ?t2))))"
  have split: "Split_leaf ps leaf (Some txn1) ?t2
                 = Inr (?n, Some (AddIntoPageSet ?n txn1), ?t3)"
    using assms(6)
    by (simp add: Split_leaf_def pool_NewPage_def pool_write_def pool_FetchPage_def
        pool_update_def bindE_def Let_def split_beta)
  have old: "pool ?t3 leaf = Some ?old" and new: "pool ?t3 ?n = Some ?new"
    using assms(6) by (simp_all add: pool_write_def)
  have newprops: "IsLeafPage ?new" "page_id ?new = ?n" "parent_page_id ?new = parent_page_id p"
    by (simp_all add: Leaf_MoveHalfTo_def Leaf_CopyHalfFrom_def Let_def Leaf_Init_def
        IsLeafPage_def Leaf_Insert_size)
  have pr: "page_id ?r = ?n" by (simp add: Leaf_Init_def)
  have k: "0 \<le> ?k" "?k < cur_size ?p1"
    using assms(4,5) by (auto simp: Leaf_Insert_size)
  have nth: "fst (items ?p1 ! nat ?k) = fst (array ?p1 ?k)"
    using k by (simp add: items_def nth_upto)
  have gt: "cur_size ?p1 > max_size ?p1" using sz by simp
  have ins: "InsertIntoLeaf ps key val (Some txn) t
               = Option.bind (InsertIntoParent ps leaf (KeyAt ?new 0) ?n
                                (Some (AddIntoPageSet ?n txn1)) ?t3)
                   (\<lambda>r. case r of
                          Inl e \<Rightarrow> Some (Inl e)
                        | Inr (txn3, t4) \<Rightarrow> Some (release_all True txn3 t4))"
    using assms(1,2,3) gt new
    by (simp add: InsertIntoLeaf_def pool_FetchPage_def split Let_def del: Option.bind_eq_Some_conv)
  show ?thesis
    unfolding split
    using old new newprops mh pr nth ins
    by (simp add: Leaf_Insert_size del: Option.bind_eq_Some_conv)
qed

theorem InsertIntoLeaf_split_witness:
  "FindLeafPage example_params 5 False INSERT (Some (new_txn 0)) (tree_1_to_4 1 10 20 30 40)
     = Some (Inr (Some 1, Some (AddIntoPageSet 1 (new_txn 0)), tree_1_to_4 1 10 20 30 40))
   \<and> pool (tree_1_to_4 1 10 20 30 40) 1 = Some (leaf_1_to_4 1 10 20 30 40)
   \<and> Leaf_Lookup (leaf_1_to_4 1 10 20 30 40) 5 = None
   \<and> cur_size (leaf_1_to_4 1 10 20 30 40) = max_size (leaf_1_to_4 1 10 20 30 40)
   \<and> 0 \<le> max_size (leaf_1_to_4 1 10 20 30 40)
   \<and> 1 \<noteq> disk_next_page_id (tree_1_to_4 1 10 20 30 40)
   \<and> items (Leaf_Insert (leaf_1_to_4 1 10 20 30 40) 5 50)
       = [(1, 10), (2, 20), (3, 30), (4, 40), (5, 50)]
   \<and> drop (nat ((max_size (leaf_1_to_4 1 10 20 30 40) + 1) div 2))
        (items (Leaf_Insert (leaf_1_to_4 1 10 20 30 40) 5 50))
       = [(3, 30), (4, 40), (5, 50)]
   \<and> take (nat ((max_size (leaf_1_to_4 1 10 20 30 40) + 1) div 2))
        (items (Leaf_Insert (leaf_1_to_4 1 10 20 30 40) 5 50))
       = [(1, 10), (2, 20)]
   \<and> (case Split_leaf example_params 1 (Some (AddIntoPageSet 1 (new_txn 0)))
              (pool_write 1 (Leaf_Insert (leaf_1_to_4 1 10 20 30 40) 5 50)
                 (tree_1_to_4 1 10 20 30 40)) of
        Inl e \<Rightarrow> False
      | Inr (new_id, txn2, t3) \<Rightarrow>
          new_id = disk_next_page_id (tree_1_to_4 1 10 20 30 40)
        \<and> txn2 = Some (AddIntoPageSet new_id (AddIntoPageSet 1 (new_txn 0)))
        \<and> (case pool t3 1 of
              None \<Rightarrow> False
            | Some old \<Rightarrow>
                (case pool t3 new_id of
                   None \<Rightarrow> False
                 | Some new \<Rightarrow>
                     items new
                       = drop (nat ((max_size (leaf_1_to_4 1 10 20 30 40) + 1) div 2))
                           (items (Leaf_Insert (leaf_1_to_4 1 10 20 30 40) 5 50))
                   \<and> items old
                       = take (nat ((max_size (leaf_1_to_4 1 10 20 30 40) + 1) div 2))
                           (items (Leaf_Insert (leaf_1_to_4 1 10 20 30 40) 5 50))
                   \<and> IsLeafPage new \<and> page_id new = new_id
                   \<and> parent_page_id new = parent_page_id (leaf_1_to_4 1 10 20 30 40)
                   \<and> next_page_id old = new_id
                   \<and> next_page_id new = next_page_id (leaf_1_to_4 1 10 20 30 40)
                   \<and> KeyAt new 0
                       = fst (items (Leaf_Insert (leaf_1_to_4 1 10 20 30 40) 5 50)
                                ! nat ((max_size (leaf_1_to_4 1 10 20 30 40) + 1) div 2))
                   \<and> InsertIntoLeaf example_params 5 50 (Some (new_txn 0))
                         (tree_1_to_4 1 10 20 30 40)
                       = Option.bind (InsertIntoParent example_params 1 (KeyAt new 0) new_id txn2 t3)
                           (\<lambda>r. case r of
                                  Inl e \<Rightarrow> Some (Inl e)
                                | Inr (txn3, t4) \<Rightarrow> Some (release_all True txn3 t4)))))"
proof -
  let ?t = "tree_1_to_4 1 10 20 30 40"
  let ?p = "leaf_1_to_4 1 10 20 30 40"
  have h1: "FindLeafPage example_params 5 False INSERT (Some (new_txn 0)) ?t
              = Some (Inr (Some 1, Some (AddIntoPageSet 1 (new_txn 0)), ?t))"
    by (simp add: tree_defs tree_1_to_4_def leaf_1_to_4_def example_params_def IsSafe_def
        new_txn_def)
  have h2: "pool ?t 1 = Some ?p"
    by (simp add: tree_1_to_4_def)
  have h3: "Leaf_Lookup ?p 5 = None"
    by (simp add: tree_defs leaf_1_to_4_def)
  have h4: "cur_size ?p = max_size ?p" and h5: "0 \<le> max_size ?p"
    by (simp_all add: leaf_1_to_4_def)
  have h6: "1 \<noteq> disk_next_page_id ?t"
    by (simp add: tree_1_to_4_def)
  have its: "items (Leaf_Insert ?p 5 50) = [(1, 10), (2, 20), (3, 30), (4, 40), (5, 50)]"
    by (simp add: tree_defs leaf_1_to_4_def)
  have mx: "nat ((max_size ?p + 1) div 2) = 2"
    by (simp add: leaf_1_to_4_def)
  have dt: "drop (nat ((max_size ?p + 1) div 2)) (items (Leaf_Insert ?p 5 50))
              = [(3, 30), (4, 40), (5, 50)]"
    "take (nat ((max_size ?p + 1) div 2)) (items (Leaf_Insert ?p 5 50)) = [(1, 10), (2, 20)]"
    unfolding its mx by simp_all
  from InsertIntoLeaf_split [OF h1 h2 h3 h4 h5 h6, where val = 50] h1 h2 h3 h4 h5 h6 its dt
  show ?thesis
    by blast
qed

theorem Leaf_split_index_counterexample:
  "cur_size (leaf_1_to_4 1 10 20 30 40) = max_size (leaf_1_to_4 1 10 20 30 40)
   \<and> items (Leaf_Insert (leaf_1_to_4 1 10 20 30 40) 5 50)
       = [(1, 10), (2, 20), (3, 30), (4, 40), (5, 50)]
   \<and> spec_split_index (max_size (leaf_1_to_4 1 10 20 30 40)) = 3
   \<and> (case Split_leaf example_params 1 (Some (new_txn 0))
              (pool_write 1 (Leaf_Insert (leaf_1_to_4 1 10 20 30 40) 5 50)
                 (tree_1_to_4 1 10 20 30 40)) of
        Inl e \<Rightarrow> False
      | Inr (new_id, txn2, t3) \<Rightarrow>
          (case pool t3 new_id of
             None \<Rightarrow> False
           | Some new \<Rightarrow>
               items new = [(3, 30), (4, 40), (5, 50)]
             \<and> items new
                 \<noteq> drop (nat (spec_split_index (max_size (leaf_1_to_4 1 10 20 30 40))))
                     (items (Leaf_Insert (leaf_1_to_4 1 10 20 30 40) 5 50))))"
  by (simp add: tree_defs tree_1_to_4_def leaf_1_to_4_def example_params_def new_txn_def
      spec_split_index_def)

subsection \<open>Descent to a leaf\<close>

lemma release_fold_no_deleted:
  "foldl (\<lambda>(ds, t) pid. if pid \<in> ds then (ds - {pid}, pool_DeletePage pid t) else (ds, t))
     ({}, t) pids = ({}, t)"
  by (induction pids) auto

lemma RemovePagesInTransaction_no_deleted:
  assumes "no_deleted transaction"
    and "RemovePagesInTransaction transaction cur_id t = Inr (txn1, t1)"
  shows "t1 = t \<and> no_deleted txn1"
  using assms
  by (auto simp: RemovePagesInTransaction_def no_deleted_def release_fold_no_deleted bindE_def
      split: option.splits sum.splits)

lemma RemovePagesInTransaction_Some:
  assumes "deleted_page_set txn = {}"
  shows "RemovePagesInTransaction (Some txn) cur_id t = Inr (Some (txn\<lparr>page_set := []\<rparr>), t)"
  using assms
  by (simp add: RemovePagesInTransaction_def release_fold_no_deleted)

lemma RemovePagesInTransaction_total:
  assumes "no_deleted transaction" and "pool t cur_id \<noteq> None"
  shows "\<exists>txn1. RemovePagesInTransaction transaction cur_id t = Inr (txn1, t) \<and> no_deleted txn1
           \<and> (txn1 = None \<longleftrightarrow> transaction = None)"
  using assms
  by (auto simp: RemovePagesInTransaction_def no_deleted_def release_fold_no_deleted bindE_def
      pool_FetchPage_def split: option.splits sum.splits)

lemma ConcurrentFetchPage_no_deleted:
  assumes "no_deleted transaction"
    and "ConcurrentFetchPage ps pid op previous_id transaction t = Inr (txn1, t1)"
  shows "t1 = t \<and> no_deleted txn1 \<and> pool t pid \<noteq> None"
proof -
  from assms(2) obtain tree_page where f: "pool t pid = Some tree_page"
    by (auto simp: ConcurrentFetchPage_def bindE_def pool_FetchPage_def split: option.splits sum.splits)
  show ?thesis
  proof (cases "previous_id > 0 \<and> (op = READ \<or> IsSafe ps op tree_page)")
    case True
    with assms(2) f obtain txn0 where
      r: "RemovePagesInTransaction transaction previous_id t = Inr (txn0, t1)"
      and eq: "txn1 = map_option (AddIntoPageSet pid) txn0"
      by (auto simp: ConcurrentFetchPage_def bindE_def pool_FetchPage_def split: sum.splits)
    from RemovePagesInTransaction_no_deleted[OF assms(1) r] eq f show ?thesis
      by (auto simp: no_deleted_def AddIntoPageSet_def split: option.splits)
  next
    case False
    with assms f show ?thesis
      by (auto simp: ConcurrentFetchPage_def bindE_def pool_FetchPage_def no_deleted_def
          AddIntoPageSet_def split: option.splits)
  qed
qed

lemma ConcurrentFetchPage_total:
  assumes "no_deleted transaction" and "pool t pid \<noteq> None"
    and "previous_id > 0 \<longrightarrow> pool t previous_id \<noteq> None"
  shows "\<exists>txn1. ConcurrentFetchPage ps pid op previous_id transaction t = Inr (txn1, t)
           \<and> no_deleted txn1 \<and> (txn1 = None \<longleftrightarrow> transaction = None)"
proof -
  from assms(2) obtain tree_page where f: "pool t pid = Some tree_page" by auto
  show ?thesis
  proof (cases "previous_id > 0 \<and> (op = READ \<or> IsSafe ps op tree_page)")
    case True
    with assms(3) have "pool t previous_id \<noteq> None" by simp
    from RemovePagesInTransaction_total[OF assms(1) this]
    obtain txn0 where r: "RemovePagesInTransaction transaction previous_id t = Inr (txn0, t)"
      and nd: "no_deleted txn0" and sm: "txn0 = None \<longleftrightarrow> transaction = None" by blast
    with True f show ?thesis
      by (auto simp: ConcurrentFetchPage_def bindE_def pool_FetchPage_def no_deleted_def
          AddIntoPageSet_def split: option.splits)
  next
    case False
    with assms f show ?thesis
      by (auto simp: ConcurrentFetchPage_def bindE_def pool_FetchPage_def no_deleted_def
          AddIntoPageSet_def split: option.splits)
  qed
qed


lemma FindLeafPage_loop_descent_ok:
  assumes "FindLeafPage_loop ps key leftMost op ptr transaction t = Some y"
  shows "descent_ok ps key leftMost op ptr transaction t y"
proof (rule FindLeafPage_loop.raw_induct [where P = descent_ok, OF _ assms])
  fix f :: "tree_params \<Rightarrow> int \<Rightarrow> bool \<Rightarrow> OpType \<Rightarrow> int \<Rightarrow> Transaction option \<Rightarrow> BPlusTree
     \<Rightarrow> (tree_error + (int \<times> Transaction option \<times> BPlusTree)) option"
  fix ps key leftMost op ptr transaction t y
  assume IH: "\<And>ps key leftMost op ptr transaction t y.
        f ps key leftMost op ptr transaction t = Some y \<Longrightarrow>
        descent_ok ps key leftMost op ptr transaction t y"
  assume body: "(case pool_FetchPage ptr t of Inl e \<Rightarrow> Some (Inl e)
      | Inr tree_page \<Rightarrow>
          if IsLeafPage tree_page then Some (Inr (ptr, transaction, t))
          else let next_id =
                     if leftMost then ValueAt tree_page 0
                     else Internal_Lookup tree_page key
               in case ConcurrentFetchPage ps next_id op ptr transaction t of
                  Inl e \<Rightarrow> Some (Inl e)
                  | Inr (txn1, t1) \<Rightarrow> f ps key leftMost op next_id txn1 t1) = Some y"
  show "descent_ok ps key leftMost op ptr transaction t y"
    unfolding descent_ok_def
  proof (intro impI allI)
    fix leaf txn1 t1
    assume nd: "no_deleted transaction" and y: "y = Inr (leaf, txn1, t1)"
    from body y obtain tree_page where fp: "pool t ptr = Some tree_page"
      by (auto simp: pool_FetchPage_def split: option.splits)
    show "t1 = t \<and> no_deleted txn1 \<and> (\<exists>p. pool t leaf = Some p \<and> IsLeafPage p)
         \<and> (\<forall>op2 txn2. no_deleted txn2 \<longrightarrow>
              (\<exists>txn3. FindLeafPage_loop ps key leftMost op2 ptr txn2 t = Some (Inr (leaf, txn3, t))
                      \<and> no_deleted txn3 \<and> (txn3 = None \<longleftrightarrow> txn2 = None)))"
    proof (cases "IsLeafPage tree_page")
      case True
      with body y fp have eq: "leaf = ptr" "txn1 = transaction" "t1 = t"
        by (auto simp: pool_FetchPage_def)
      have "\<And>op2 txn2. FindLeafPage_loop ps key leftMost op2 ptr txn2 t = Some (Inr (ptr, txn2, t))"
        using fp True by (subst FindLeafPage_loop.simps) (simp add: pool_FetchPage_def)
      with eq nd fp True show ?thesis by auto
    next
      case False
      define next_id where "next_id = (if leftMost then ValueAt tree_page 0
                                       else Internal_Lookup tree_page key)"
      from body y fp False obtain txn0 t0 where
        cfp: "ConcurrentFetchPage ps next_id op ptr transaction t = Inr (txn0, t0)"
        and rec: "f ps key leftMost op next_id txn0 t0 = Some y"
        by (auto simp: pool_FetchPage_def next_id_def Let_def split: sum.splits)
      from ConcurrentFetchPage_no_deleted[OF nd cfp]
      have t0: "t0 = t" and nd0: "no_deleted txn0" and fn: "pool t next_id \<noteq> None"
        by auto
      from IH[OF rec] nd0 y t0
      have res: "t1 = t" "no_deleted txn1" "\<exists>p. pool t leaf = Some p \<and> IsLeafPage p"
        and other: "\<And>op2 txn2. no_deleted txn2 \<Longrightarrow>
              \<exists>txn3. FindLeafPage_loop ps key leftMost op2 next_id txn2 t = Some (Inr (leaf, txn3, t))
                      \<and> no_deleted txn3 \<and> (txn3 = None \<longleftrightarrow> txn2 = None)"
        unfolding descent_ok_def by auto
      have "\<exists>txn3. FindLeafPage_loop ps key leftMost op2 ptr txn2 t = Some (Inr (leaf, txn3, t))
                      \<and> no_deleted txn3 \<and> (txn3 = None \<longleftrightarrow> txn2 = None)"
        if nd2: "no_deleted txn2" for op2 txn2
      proof -
        from ConcurrentFetchPage_total[OF nd2 fn, of ptr ps op2] fp
        obtain txn4 where c2: "ConcurrentFetchPage ps next_id op2 ptr txn2 t = Inr (txn4, t)"
          and nd4: "no_deleted txn4" and sm4: "txn4 = None \<longleftrightarrow> txn2 = None" by auto
        from other[OF nd4, of op2] obtain txn3 where
          l: "FindLeafPage_loop ps key leftMost op2 next_id txn4 t = Some (Inr (leaf, txn3, t))"
          and nd3: "no_deleted txn3" and sm3: "txn3 = None \<longleftrightarrow> txn4 = None" by blast
        have "FindLeafPage_loop ps key leftMost op2 ptr txn2 t = Some (Inr (leaf, txn3, t))"
          using fp False c2 l
          by (subst FindLeafPage_loop.simps) (simp add: pool_FetchPage_def next_id_def)
        with nd3 sm3 sm4 show ?thesis by blast
      qed
      with res show ?thesis by blast
    qed
  qed
qed

lemma FindLeafPage_descent:
  assumes "FindLeafPage ps key leftMost op transaction t = Some (Inr (Some leaf, txn1, t1))"
    and "no_deleted transaction"
  shows "t1 = t \<and> no_deleted txn1
       \<and> (\<exists>p. pool t leaf = Some p \<and> IsLeafPage p)
       \<and> \<not> IsEmpty t
       \<and> (\<forall>op2 txn2. no_deleted txn2 \<longrightarrow>
            (\<exists>txn3. FindLeafPage ps key leftMost op2 txn2 t = Some (Inr (Some leaf, txn3, t))
                    \<and> no_deleted txn3 \<and> (txn3 = None \<longleftrightarrow> txn2 = None)))"
proof -
  from assms(1) have ne: "\<not> IsEmpty t"
    by (auto simp: FindLeafPage_def split: if_splits)
  with assms(1) have unf:
    "(case ConcurrentFetchPage ps (root_page_id t) op INVALID_PAGE_ID transaction t of
        Inl e \<Rightarrow> Some (Inl e)
      | Inr (txn0, t0) \<Rightarrow>
          Option.bind (FindLeafPage_loop ps key leftMost op (root_page_id t) txn0 t0)
            (\<lambda>r. case r of
                   Inl e \<Rightarrow> Some (Inl e)
                 | Inr (ptr, txn2, t2) \<Rightarrow> Some (Inr (Some ptr, txn2, t2))))
     = Some (Inr (Some leaf, txn1, t1))"
    by (simp add: FindLeafPage_def)
  then obtain txn0 t0 where
    cfp: "ConcurrentFetchPage ps (root_page_id t) op INVALID_PAGE_ID transaction t = Inr (txn0, t0)"
    by (cases "ConcurrentFetchPage ps (root_page_id t) op INVALID_PAGE_ID transaction t") auto
  with unf obtain r where
    loop0: "FindLeafPage_loop ps key leftMost op (root_page_id t) txn0 t0 = Some r"
    and r: "(case r of Inl e \<Rightarrow> Some (Inl e)
            | Inr (ptr, txn2, t2) \<Rightarrow> Some (Inr (Some ptr, txn2, t2)))
            = Some (Inr (Some leaf, txn1, t1))"
    by (cases "FindLeafPage_loop ps key leftMost op (root_page_id t) txn0 t0") auto
  from r have "r = Inr (leaf, txn1, t1)"
    by (cases r) auto
  with loop0 have loop:
    "FindLeafPage_loop ps key leftMost op (root_page_id t) txn0 t0 = Some (Inr (leaf, txn1, t1))"
    by simp
  from ConcurrentFetchPage_no_deleted[OF assms(2) cfp]
  have t0: "t0 = t" and nd0: "no_deleted txn0" and fr: "pool t (root_page_id t) \<noteq> None"
    by auto
  from FindLeafPage_loop_descent_ok[OF loop] nd0 t0
  have res: "t1 = t" "no_deleted txn1" "\<exists>p. pool t leaf = Some p \<and> IsLeafPage p"
    and other: "\<And>op2 txn2. no_deleted txn2 \<Longrightarrow>
          \<exists>txn3. FindLeafPage_loop ps key leftMost op2 (root_page_id t) txn2 t
                    = Some (Inr (leaf, txn3, t)) \<and> no_deleted txn3
                  \<and> (txn3 = None \<longleftrightarrow> txn2 = None)"
    unfolding descent_ok_def by auto
  have "\<exists>txn3. FindLeafPage ps key leftMost op2 txn2 t = Some (Inr (Some leaf, txn3, t))
                    \<and> no_deleted txn3 \<and> (txn3 = None \<longleftrightarrow> txn2 = None)"
    if nd2: "no_deleted txn2" for op2 txn2
  proof -
    from ConcurrentFetchPage_total[OF nd2 fr, of INVALID_PAGE_ID ps op2]
    obtain txn4 where
      c2: "ConcurrentFetchPage ps (root_page_id t) op2 INVALID_PAGE_ID txn2 t = Inr (txn4, t)"
      and nd4: "no_deleted txn4" and sm4: "txn4 = None \<longleftrightarrow> txn2 = None"
      by (auto simp: INVALID_PAGE_ID_def)
    from other[OF nd4, of op2] obtain txn3 where
      l: "FindLeafPage_loop ps key leftMost op2 (root_page_id t) txn4 t = Some (Inr (leaf, txn3, t))"
      and nd3: "no_deleted txn3" and sm3: "txn3 = None \<longleftrightarrow> txn4 = None" by blast
    have "FindLeafPage ps key leftMost op2 txn2 t = Some (Inr (Some leaf, txn3, t))"
      using ne c2 l by (simp add: FindLeafPage_def)
    with nd3 sm3 sm4 show ?thesis by blast
  qed
  with res ne show ?thesis by blast
qed


lemma FindLeafPage_null:
  assumes "FindLeafPage ps key leftMost op transaction t = Some (Inr (None, txn1, t1))"
  shows "IsEmpty t"
proof (rule ccontr)
  assume ne: "\<not> IsEmpty t"
  show False
  proof (cases "ConcurrentFetchPage ps (root_page_id t) op INVALID_PAGE_ID transaction t")
    case (Inl e)
    with assms ne show False by (simp add: FindLeafPage_def)
  next
    case (Inr x)
    obtain txn0 t0 where x: "x = (txn0, t0)" by (cases x)
    show False
    proof (cases "FindLeafPage_loop ps key leftMost op (root_page_id t) txn0 t0")
      case None
      with assms ne Inr x show False by (simp add: FindLeafPage_def)
    next
      case (Some y)
      with assms ne Inr x show False
        by (cases y) (auto simp: FindLeafPage_def)
    qed
  qed
qed

lemma GetValue_leaf:
  assumes "GetValue ps key rtxn t = Some (Inr (found, rtxn1, rt1))"
    and "no_deleted rtxn"
  shows "(IsEmpty t \<and> found = None)
       \<or> (\<not> IsEmpty t
          \<and> (\<exists>leaf txn1 p. FindLeafPage ps key False READ rtxn t = Some (Inr (Some leaf, txn1, t))
                \<and> pool t leaf = Some p \<and> IsLeafPage p \<and> Leaf_Lookup p key = found))"
proof (cases "IsEmpty t")
  case True
  with assms(1) show ?thesis
    by (simp add: GetValue_def FindLeafPage_def)
next
  case False
  from assms(1) obtain r where
    f: "FindLeafPage ps key False READ rtxn t = Some r"
    and r: "(case r of
              Inl e \<Rightarrow> Some (Inl e)
            | Inr (None, txn1, t1) \<Rightarrow> Some (Inr (None, txn1, t1))
            | Inr (Some ptr, txn1, t1) \<Rightarrow>
                Some (bindE (pool_FetchPage ptr t1) (\<lambda>res_page.
                      bindE (RemovePagesInTransaction txn1 (page_id res_page) t1) (\<lambda>(txn2, t2).
                      Inr (Leaf_Lookup res_page key, txn2, t2)))))
            = Some (Inr (found, rtxn1, rt1))"
    by (cases "FindLeafPage ps key False READ rtxn t") (auto simp: GetValue_def)
  from f False have nn: "\<And>txn1 t1. r \<noteq> Inr (None, txn1, t1)"
    using FindLeafPage_null by blast
  with r obtain leaf txn1 t1 where re: "r = Inr (Some leaf, txn1, t1)"
    by (cases r) (auto split: option.splits)
  from FindLeafPage_descent[OF f[unfolded re] assms(2)]
  obtain p where t1: "t1 = t" and p: "pool t leaf = Some p" "IsLeafPage p"
    by blast
  from r re t1 p have "Leaf_Lookup p key = found"
    by (auto simp: bindE_def pool_FetchPage_def split: sum.splits)
  with False f re t1 p show ?thesis by blast
qed



subsection \<open>Duplicate insert\<close>

text \<open>
  \<^bold>\<open>C4.\<close>  For every tree state \<open>t\<close> and every key that is present in it, that is, which
  \<open>GetValue\<close> finds there, \<open>Insert\<close> of the key with any value under a transaction returns
  false and leaves the tree state as it was: the pool with every page's contents, hence the
  leaf chain, the root page id, the header record and the list of deallocated pages.  The
  transaction ends with an empty page set and nothing to delete.
\<close>

theorem BPT_Insert_duplicate:
  assumes "GetValue ps key rtxn t = Some (Inr (Some v0, rtxn1, rt1))"
    and "no_deleted rtxn"
    and "deleted_page_set txn = {}"
  shows "(case BPT_Insert ps key val (Some txn) t of
            Some (Inr (inserted, txn', t')) \<Rightarrow>
              \<not> inserted \<and> t' = t
            \<and> (case txn' of None \<Rightarrow> False
                | Some x \<Rightarrow> page_set x = [] \<and> deleted_page_set x = {})
          | _ \<Rightarrow> False)"
proof -
  from GetValue_leaf[OF assms(1,2)] obtain leaf txn1 p where
    ne: "\<not> IsEmpty t"
    and f: "FindLeafPage ps key False READ rtxn t = Some (Inr (Some leaf, txn1, t))"
    and p: "pool t leaf = Some p" and lk: "Leaf_Lookup p key = Some v0"
    by auto
  have "no_deleted (Some txn)" using assms(3) by (simp add: no_deleted_def)
  with FindLeafPage_descent[OF f assms(2)] obtain txn3 where
    fi: "FindLeafPage ps key False INSERT (Some txn) t = Some (Inr (Some leaf, txn3, t))"
    and nd3: "no_deleted txn3" and sm: "txn3 \<noteq> None"
    by blast
  from sm obtain x where x: "txn3 = Some x" by auto
  with nd3 have dx: "deleted_page_set x = {}" by (simp add: no_deleted_def)
  have "BPT_Insert ps key val (Some txn) t = Some (Inr (False, Some (x\<lparr>page_set := []\<rparr>), t))"
    using ne fi p lk x RemovePagesInTransaction_Some[OF dx]
    by (simp add: BPT_Insert_def InsertIntoLeaf_def pool_FetchPage_def release_all_def bindE_def)
  with dx show ?thesis by simp
qed

theorem BPT_Insert_duplicate_witness:
  "GetValue example_params 3 None (S1_tree 1 10 20 30 40 50)
     = Some (Inr (Some 30, None, S1_tree 1 10 20 30 40 50))
   \<and> no_deleted None
   \<and> deleted_page_set (new_txn 0) = {}
   \<and> (case BPT_Insert example_params 3 99 (Some (new_txn 0)) (S1_tree 1 10 20 30 40 50) of
         Some (Inr (inserted, txn', t')) \<Rightarrow>
           \<not> inserted \<and> t' = S1_tree 1 10 20 30 40 50
         \<and> (case txn' of None \<Rightarrow> False
             | Some x \<Rightarrow> page_set x = [] \<and> deleted_page_set x = {})
       | _ \<Rightarrow> False)"
proof -
  have g: "GetValue example_params 3 None (S1_tree 1 10 20 30 40 50)
             = Some (Inr (Some 30, None, S1_tree 1 10 20 30 40 50))"
    by (simp add: tree_defs S1_tree_def example_params_def)
  have nd: "no_deleted None"
    by (simp add: no_deleted_def)
  have d: "deleted_page_set (new_txn 0) = {}"
    by (simp add: new_txn_def)
  show ?thesis
    using BPT_Insert_duplicate [OF g nd d, where val = 99] g nd d
    by simp
qed

subsection \<open>Remove\<close>

text \<open>
  \<^bold>\<open>C3.\<close>  The tree that the five inserts of scenario S1 produce is \<open>S1_tree\<close>: an internal
  root with separator 3 over the leaves with keys 1, 2 and 3, 4, 5, \<open>max_size\<close> 4.  When a
  non-root leaf needs at least two entries and an internal root with one child is not above
  the minimum size of an internal root, removing key 1 from it merges the two leaves:
  afterwards the root is the former left leaf, a leaf page that is the root and ends the leaf
  chain, it holds exactly the keys 2, 3, 4, 5, the former right leaf is gone from the pool,
  and reading the leaf chain from the leftmost leaf yields 2, 3, 4, 5.
\<close>

theorem BPT_Remove_coalesce:
  assumes "leaf_max_size ps = 4" and "internal_max_size ps = 4"
    and "2 \<le> min_size_of ps LEAF_PAGE False 4" and "1 \<le> min_size_of ps INTERNAL_PAGE True 4"
    and "0 < n"
    and "page_set txn = []" and "deleted_page_set txn = {}"
  shows
    "BPT_Insert_all ps [(1, v1), (2, v2), (3, v3), (4, v4), (5, v5)] (Some txn) (BPlusTree_init n)
       = Some (Inr ([True, True, True, True, True], Some txn, S1_tree n v1 v2 v3 v4 v5))
   \<and> (case BPT_Remove ps 1 (Some txn) (S1_tree n v1 v2 v3 v4 v5) of
        Some (Inr (txn1, t)) \<Rightarrow>
          root_page_id t = n
        \<and> header_record t = Some n
        \<and> (case pool t n of
              None \<Rightarrow> False
            | Some root \<Rightarrow>
                IsLeafPage root \<and> IsRootPage root
              \<and> items root = [(2, v2), (3, v3), (4, v4), (5, v5)]
              \<and> next_page_id root = INVALID_PAGE_ID)
        \<and> pool t (n + 1) = None
        \<and> scan_all ps t = Some (Inr [(2, v2), (3, v3), (4, v4), (5, v5)])
      | _ \<Rightarrow> False)"
proof -
  have run: "BPT_Insert_all ps [(1, v1), (2, v2), (3, v3), (4, v4), (5, v5)] (Some txn)
               (BPlusTree_init n)
             = Some (Inr ([True, True, True, True, True], Some txn, S1_tree n v1 v2 v3 v4 v5))"
    using assms by (intro S1_run)
  have rem: "(case BPT_Remove ps 1 (Some txn) (S1_tree n v1 v2 v3 v4 v5) of
        Some (Inr (txn1, t)) \<Rightarrow>
          root_page_id t = n
        \<and> header_record t = Some n
        \<and> (case pool t n of
              None \<Rightarrow> False
            | Some root \<Rightarrow>
                IsLeafPage root \<and> IsRootPage root
              \<and> items root = [(2, v2), (3, v3), (4, v4), (5, v5)]
              \<and> next_page_id root = INVALID_PAGE_ID)
        \<and> pool t (n + 1) = None
        \<and> scan_all ps t = Some (Inr [(2, v2), (3, v3), (4, v4), (5, v5)])
      | _ \<Rightarrow> False)"
  proof (cases "is_safe ps DELETE LEAF_PAGE False 2 4")
    case True
    with assms show ?thesis
      by (simp add: tree_defs remove_defs S1_tree_def)
  next
    case False
    with assms show ?thesis
      by (simp add: tree_defs remove_defs S1_tree_def)
  qed
  show ?thesis
    using run rem by blast
qed

theorem BPT_Remove_coalesce_witness:
  "leaf_max_size example_params = 4 \<and> internal_max_size example_params = 4
   \<and> 2 \<le> min_size_of example_params LEAF_PAGE False 4
   \<and> 1 \<le> min_size_of example_params INTERNAL_PAGE True 4
   \<and> (0 :: int) < 1
   \<and> page_set (new_txn 0) = [] \<and> deleted_page_set (new_txn 0) = {}
   \<and> BPT_Insert_all example_params [(1, 10), (2, 20), (3, 30), (4, 40), (5, 50)]
         (Some (new_txn 0)) (BPlusTree_init 1)
       = Some (Inr ([True, True, True, True, True], Some (new_txn 0), S1_tree 1 10 20 30 40 50))
   \<and> (case BPT_Remove example_params 1 (Some (new_txn 0)) (S1_tree 1 10 20 30 40 50) of
        Some (Inr (txn1, t)) \<Rightarrow>
          root_page_id t = 1
        \<and> header_record t = Some 1
        \<and> (case pool t 1 of
              None \<Rightarrow> False
            | Some root \<Rightarrow>
                IsLeafPage root \<and> IsRootPage root
              \<and> items root = [(2, 20), (3, 30), (4, 40), (5, 50)]
              \<and> next_page_id root = INVALID_PAGE_ID)
        \<and> pool t (1 + 1) = None
        \<and> scan_all example_params t = Some (Inr [(2, 20), (3, 30), (4, 40), (5, 50)])
      | _ \<Rightarrow> False)"
  using BPT_Remove_coalesce [where ps = example_params and n = 1 and txn = "new_txn 0"
      and ?v1.0 = 10 and ?v2.0 = 20 and ?v3.0 = 30 and ?v4.0 = 40 and ?v5.0 = 50]
  by (simp add: example_params_def new_txn_def)



text \<open>
  The condition on the leaves cannot be dropped.  \<open>Remove\<close> compares the size of the leaf
  with its minimum size whether or not an entry was removed: with a minimum size of 3 for a
  non-root leaf of \<open>max_size\<close> 4, removing the absent key 0 from \<open>S1_tree\<close> finds the left
  leaf with two entries below its minimum and moves the entry of key 3 over from the right
  leaf.
\<close>

lemma BPT_Remove_absent_underfull:
  assumes "leaf_max_size ps = 4" and "internal_max_size ps = 4"
    and "min_size_of ps LEAF_PAGE False 4 = 3"
    and "0 < n"
    and "page_set txn = []" and "deleted_page_set txn = {}"
  shows
    "GetValue ps 0 None (S1_tree n v1 v2 v3 v4 v5)
       = Some (Inr (None, None, S1_tree n v1 v2 v3 v4 v5))
   \<and> (case BPT_Remove ps 0 (Some txn) (S1_tree n v1 v2 v3 v4 v5) of
        Some (Inr (txn1, t)) \<Rightarrow>
          (case pool t n of
             None \<Rightarrow> False
           | Some left \<Rightarrow> items left = [(1, v1), (2, v2), (3, v3)])
        \<and> (case pool t (n + 1) of
             None \<Rightarrow> False
           | Some right \<Rightarrow> items right = [(4, v4), (5, v5)])
      | _ \<Rightarrow> False)"
proof -
  have g: "GetValue ps 0 None (S1_tree n v1 v2 v3 v4 v5)
       = Some (Inr (None, None, S1_tree n v1 v2 v3 v4 v5))"
    using assms by (simp add: tree_defs S1_tree_def)
  have r: "(case BPT_Remove ps 0 (Some txn) (S1_tree n v1 v2 v3 v4 v5) of
        Some (Inr (txn1, t)) \<Rightarrow>
          (case pool t n of
             None \<Rightarrow> False
           | Some left \<Rightarrow> items left = [(1, v1), (2, v2), (3, v3)])
        \<and> (case pool t (n + 1) of
             None \<Rightarrow> False
           | Some right \<Rightarrow> items right = [(4, v4), (5, v5)])
      | _ \<Rightarrow> False)"
  proof (cases "is_safe ps DELETE LEAF_PAGE False 2 4")
    case True
    with assms show ?thesis
      by (simp add: tree_defs remove_defs S1_tree_def Leaf_MoveFirstToEndOf_def
          Leaf_CopyFirstFrom_def Leaf_MoveLastToFrontOf_def CopyLastFrom_def)
  next
    case False
    with assms show ?thesis
      by (simp add: tree_defs remove_defs S1_tree_def Leaf_MoveFirstToEndOf_def
          Leaf_CopyFirstFrom_def Leaf_MoveLastToFrontOf_def CopyLastFrom_def)
  qed
  from g r show ?thesis by blast
qed

end
